theory Spec2Isabelle
  imports Main "HOL-Library.Sublist"
begin

section \<open>JavaScript values, strings and errors\<close>

text \<open>
  The four React components of the repository (\<open>ScriptTransformer\<close> and \<open>VideoAnalyzer\<close>
  under \<open>src/pages\<close>, \<open>ScriptWriter\<close> and \<open>EmotionDetector\<close> in the single-file
  application) are modelled as state machines: a record of the \<open>useState\<close> cells, one
  function per handler, and one step function per component that dispatches the user
  interface events with the guards the JSX puts on them (\<open>disabled\<close>, conditional
  rendering). An \<open>async\<close> handler is split where it awaits \<open>fetch\<close>: the part before the
  await issues the request, the part after it (\<open>..._resume\<close>) runs when the request settles.

  Strings are lists of code units below 256; numbers are integers (the only things the
  code does with a payload number in the parts modelled here are the truth test and the
  conversion to a string).
\<close>

datatype jsval =
    Undefined
  | Null
  | Bool bool
  | Num int
  | Str string
  | Arr "jsval list"
  | Obj "(string \<times> jsval) list"

text \<open>The truth test of \<open>!x\<close>, \<open>x ? a : b\<close>, \<open>x || y\<close> and \<open>x && y\<close>.\<close>

fun truthy :: "jsval \<Rightarrow> bool" where
  "truthy Undefined = False"
| "truthy Null = False"
| "truthy (Bool b) = b"
| "truthy (Num n) = (n \<noteq> 0)"
| "truthy (Str s) = (s \<noteq> [])"
| "truthy (Arr xs) = True"
| "truthy (Obj kvs) = True"

definition js_or :: "jsval \<Rightarrow> jsval \<Rightarrow> jsval" where
  "js_or a b = (if truthy a then a else b)"

fun nullish :: "jsval \<Rightarrow> bool" where
  "nullish Undefined = True"
| "nullish Null = True"
| "nullish v = False"

text \<open>
  \<open>v.k\<close> for a value that is neither \<open>null\<close> nor \<open>undefined\<close> and a key that is not a
  built-in property (the code reads \<open>structured_script\<close>, \<open>final_script\<close> and \<open>detail\<close>):
  an object yields its own property, anything else yields \<open>undefined\<close>. On \<open>null\<close> and
  \<open>undefined\<close> the plain access throws a TypeError, which the callers model; the optional
  chain \<open>v?.k\<close> yields \<open>undefined\<close> there.
\<close>

fun get_prop :: "jsval \<Rightarrow> string \<Rightarrow> jsval" where
  "get_prop (Obj kvs) k = (case map_of kvs k of None \<Rightarrow> Undefined | Some v \<Rightarrow> v)"
| "get_prop v k = Undefined"

definition opt_chain :: "jsval \<Rightarrow> string \<Rightarrow> jsval" where
  "opt_chain v k = (if nullish v then Undefined else get_prop v k)"

definition digit_char :: "nat \<Rightarrow> char" where
  "digit_char d = char_of (48 + d)"

fun show_nat :: "nat \<Rightarrow> string" where
  "show_nat n = (if n < 10 then [digit_char n] else show_nat (n div 10) @ [digit_char (n mod 10)])"

definition show_int :: "int \<Rightarrow> string" where
  "show_int i = (if i < 0 then CHR ''-'' # show_nat (nat (- i)) else show_nat (nat i))"

fun join :: "string \<Rightarrow> string list \<Rightarrow> string" where
  "join sep [] = []"
| "join sep [x] = x"
| "join sep (x # y # ys) = x @ sep @ join sep (y # ys)"

text \<open>\<open>String(v)\<close>, the conversion \<open>new Error(v)\<close> applies to its argument.\<close>

fun to_string :: "jsval \<Rightarrow> string" where
  "to_string Undefined = ''undefined''"
| "to_string Null = ''null''"
| "to_string (Bool b) = (if b then ''true'' else ''false'')"
| "to_string (Num n) = show_int n"
| "to_string (Str s) = s"
| "to_string (Arr xs) = join '','' (map (\<lambda>x. if nullish x then [] else to_string x) xs)"
| "to_string (Obj kvs) = ''[object Object]''"

text \<open>\<open>String.prototype.trim\<close>: the white space and line terminators below 256.\<close>

definition is_white_space :: "char \<Rightarrow> bool" where
  "is_white_space c \<longleftrightarrow> (of_char c :: nat) \<in> {9, 10, 11, 12, 13, 32, 160}"

definition trim :: "string \<Rightarrow> string" where
  "trim s = rev (dropWhile is_white_space (rev (dropWhile is_white_space s)))"

text \<open>An exception object: its \<open>name\<close> and \<open>message\<close>.\<close>

record exn =
  ename :: string
  emessage :: string

definition new_Error :: "jsval \<Rightarrow> exn" where
  "new_Error v = \<lparr>ename = ''Error'', emessage = to_string v\<rparr>"

text \<open>\<open>String(e)\<close> for an exception object (\<open>Error.prototype.toString\<close>).\<close>

definition exn_to_string :: "exn \<Rightarrow> string" where
  "exn_to_string e =
     (if ename e = [] then emessage e
      else if emessage e = [] then ename e
      else ename e @ '': '' @ emessage e)"

section \<open>Files, object URLs, requests and responses\<close>

text \<open>A \<open>File\<close> object; \<open>ref\<close> is its identity (two selections never yield the same object).\<close>

record file_obj =
  ref :: nat
  fname :: string
  ftype :: string
  fsize :: nat

text \<open>
  \<open>URL.createObjectURL\<close> returns a fresh URL at each call; URLs are numbered in the order
  of their creation, and every create and revoke is logged in the order it happens.
\<close>

datatype url_event = Created nat | Revoked nat

datatype part = FilePart file_obj | TextPart string

datatype body = JsonBody jsval | FormData "(string \<times> part) list"

record request =
  req_url :: string
  req_method :: string
  req_headers :: "(string \<times> string) list"
  req_body :: body

text \<open>
  A response as the handlers see it: the \<open>ok\<close> flag, and what \<open>await response.text()\<close>
  and \<open>await response.json()\<close> give, each either a thrown exception or a value.
\<close>

record response =
  resp_ok :: bool
  resp_text :: "exn + string"
  resp_json :: "exn + jsval"

datatype fetch_result = Rejected exn | Resolved response

section \<open>ScriptTransformer (src/pages/ScriptTransformer.jsx)\<close>

definition SCRIPT_API_URL_TEXT :: string where
  "SCRIPT_API_URL_TEXT = ''https://Arjun9036-script-writer-api.hf.space/generate-script/''"

record script_transformer =
  st_loading :: bool
  st_result :: jsval
  st_genre :: string
  st_text :: string
  st_error :: string
  st_sent :: "request list"
  st_inflight :: nat

definition st_init :: script_transformer where
  "st_init = \<lparr>st_loading = False, st_result = Null, st_genre = [], st_text = [],
     st_error = [], st_sent = [], st_inflight = 0\<rparr>"

text \<open>\<open>handleGenerate\<close> up to the point where it awaits \<open>fetch\<close>.\<close>

definition handleGenerate :: "script_transformer \<Rightarrow> script_transformer" where
  "handleGenerate s =
     (if trim (st_text s) = [] then s
      else
        let selectedGenre = (if trim (st_genre s) \<noteq> [] then trim (st_genre s) else ''Screenplay'')
        in s\<lparr>st_loading := True, st_error := [], st_result := Null,
             st_sent := st_sent s @
               [\<lparr>req_url = SCRIPT_API_URL_TEXT, req_method = ''POST'',
                 req_headers = [(''Content-Type'', ''application/json'')],
                 req_body = JsonBody (Obj [(''original_script'', Str (st_text s)),
                                           (''genre'', Str selectedGenre)])\<rparr>],
             st_inflight := st_inflight s + 1\<rparr>)"

definition handleGenerate_catch :: "script_transformer \<Rightarrow> script_transformer" where
  "handleGenerate_catch s =
     s\<lparr>st_error := ''Failed to connect to the backend. Please check if the API is active.''\<rparr>"

text \<open>
  The rest of \<open>handleGenerate\<close>: the \<open>try\<close> body after the await, the \<open>catch\<close> and the
  \<open>finally\<close>. Reading a property of a \<open>null\<close> payload throws, which the \<open>catch\<close> takes.
\<close>

definition handleGenerate_resume :: "script_transformer \<Rightarrow> fetch_result \<Rightarrow> script_transformer" where
  "handleGenerate_resume s r =
     (let s' =
        (case r of
           Rejected e \<Rightarrow> handleGenerate_catch s
         | Resolved response \<Rightarrow>
             if \<not> resp_ok response then handleGenerate_catch s
             else (case resp_json response of
                     Inl e \<Rightarrow> handleGenerate_catch s
                   | Inr data \<Rightarrow>
                       if nullish data then handleGenerate_catch s
                       else s\<lparr>st_result := js_or (get_prop data ''structured_script'')
                                                  (get_prop data ''final_script'')\<rparr>))
      in s'\<lparr>st_loading := False\<rparr>)"

datatype st_event =
    StSetGenre string
  | StSetText string
  | StClickGenerate
  | StSettled fetch_result

text \<open>
  The button is rendered with \<open>disabled={loading || !text}\<close>; a request settles only
  when one is outstanding.
\<close>

fun st_step :: "script_transformer \<Rightarrow> st_event \<Rightarrow> script_transformer" where
  "st_step s (StSetGenre g) = s\<lparr>st_genre := g\<rparr>"
| "st_step s (StSetText t) = s\<lparr>st_text := t\<rparr>"
| "st_step s StClickGenerate = (if st_loading s \<or> st_text s = [] then s else handleGenerate s)"
| "st_step s (StSettled r) =
     (if st_inflight s = 0 then s
      else handleGenerate_resume (s\<lparr>st_inflight := st_inflight s - 1\<rparr>) r)"

definition st_run :: "st_event list \<Rightarrow> script_transformer" where
  "st_run evs = foldl st_step st_init evs"

text \<open>What the output panel shows: the spinner, the result, or the placeholder.\<close>

datatype st_display = StSpinner | StScript jsval | StPlaceholder

definition st_render :: "script_transformer \<Rightarrow> st_display" where
  "st_render s =
     (if st_loading s then StSpinner
      else if truthy (st_result s) then StScript (st_result s)
      else StPlaceholder)"

section \<open>FileDrop and ScriptWriter (single-file application)\<close>

definition SCRIPT_API :: string where
  "SCRIPT_API = ''https://Arjun9036-script-writer-api.hf.space''"

definition EMOTION_API :: string where
  "EMOTION_API = ''https://arjun9036-multimodal-emotion-backend.hf.space/predict''"

text \<open>
  \<open>FileDrop.onFiles\<close>: what it passes to \<open>onFileSelected\<close>, \<open>null\<close> (here \<open>None\<close>) for
  an absent or empty file list, the first file otherwise.
\<close>

fun onFiles :: "file_obj list \<Rightarrow> file_obj option" where
  "onFiles [] = None"
| "onFiles (f # fs) = Some f"

record script_writer =
  sw_genre :: string
  sw_text :: string
  sw_pdf :: "file_obj option"
  sw_loading :: bool
  sw_out :: jsval
  sw_err :: string
  sw_sent :: "request list"
  sw_inflight :: nat

definition sw_init :: script_writer where
  "sw_init = \<lparr>sw_genre = ''Drama'', sw_text = [], sw_pdf = None, sw_loading = False,
     sw_out = Null, sw_err = [], sw_sent = [], sw_inflight = 0\<rparr>"

text \<open>The options of the genre \<open>select\<close>.\<close>

definition genre_options :: "string list" where
  "genre_options = [''Drama'', ''Thriller'', ''Comedy'', ''Action'', ''Romance'']"

text \<open>\<open>submit\<close> up to the point where it awaits \<open>fetch\<close>.\<close>

definition submit :: "script_writer \<Rightarrow> script_writer" where
  "submit s =
     (let s1 = s\<lparr>sw_err := [], sw_out := Null\<rparr>
      in if sw_pdf s = None \<and> trim (sw_text s) = []
         then s1\<lparr>sw_err := ''Please paste script text or upload a PDF.''\<rparr>
         else s1\<lparr>sw_loading := True,
                 sw_sent := sw_sent s @
                   [case sw_pdf s of
                      Some pdf \<Rightarrow>
                        \<lparr>req_url = SCRIPT_API @ ''/generate-script-from-pdf/'', req_method = ''POST'',
                         req_headers = [],
                         req_body = FormData [(''file'', FilePart pdf),
                                              (''genre'', TextPart (sw_genre s))]\<rparr>
                    | None \<Rightarrow>
                        \<lparr>req_url = SCRIPT_API @ ''/generate-script/'', req_method = ''POST'',
                         req_headers = [(''Content-Type'', ''application/json'')],
                         req_body = JsonBody (Obj [(''original_script'', Str (sw_text s)),
                                                   (''genre'', Str (sw_genre s))])\<rparr>],
                 sw_inflight := sw_inflight s + 1\<rparr>)"

text \<open>The \<open>catch\<close> of \<open>submit\<close>: \<open>setErr(e?.message || String(e))\<close>.\<close>

definition submit_catch :: "script_writer \<Rightarrow> exn \<Rightarrow> script_writer" where
  "submit_catch s e = s\<lparr>sw_err := (if emessage e \<noteq> [] then emessage e else exn_to_string e)\<rparr>"

text \<open>
  The rest of \<open>submit\<close>: the body is parsed before the status is looked at, so a body
  that does not parse reaches the \<open>catch\<close> with the parser's exception.
\<close>

definition submit_resume :: "script_writer \<Rightarrow> fetch_result \<Rightarrow> script_writer" where
  "submit_resume s r =
     (let s' =
        (case r of
           Rejected e \<Rightarrow> submit_catch s e
         | Resolved resp \<Rightarrow>
             (case resp_json resp of
                Inl e \<Rightarrow> submit_catch s e
              | Inr data \<Rightarrow>
                  if \<not> resp_ok resp
                  then submit_catch s (new_Error (js_or (opt_chain data ''detail'') (Str ''Server error'')))
                  else s\<lparr>sw_out := data\<rparr>))
      in s'\<lparr>sw_loading := False\<rparr>)"

datatype sw_event =
    SwSetGenre string
  | SwSetText string
  | SwFiles "file_obj list"
  | SwClickGenerate
  | SwClickReset
  | SwSettled fetch_result

text \<open>
  The genre comes from a \<open>select\<close>, which only reports one of its options; the Generate
  button is rendered with \<open>disabled={loading}\<close>; Reset is always enabled.
\<close>

fun sw_step :: "script_writer \<Rightarrow> sw_event \<Rightarrow> script_writer" where
  "sw_step s (SwSetGenre g) = (if g \<in> set genre_options then s\<lparr>sw_genre := g\<rparr> else s)"
| "sw_step s (SwSetText t) = s\<lparr>sw_text := t\<rparr>"
| "sw_step s (SwFiles files) = s\<lparr>sw_pdf := onFiles files\<rparr>"
| "sw_step s SwClickGenerate = (if sw_loading s then s else submit s)"
| "sw_step s SwClickReset = s\<lparr>sw_text := [], sw_pdf := None, sw_out := Null, sw_err := []\<rparr>"
| "sw_step s (SwSettled r) =
     (if sw_inflight s = 0 then s
      else submit_resume (s\<lparr>sw_inflight := sw_inflight s - 1\<rparr>) r)"

definition sw_run :: "sw_event list \<Rightarrow> script_writer" where
  "sw_run evs = foldl sw_step sw_init evs"

text \<open>
  The teleprompter: \<open>out ? (out.structured_script || out.final_script ||
  JSON.stringify(out, null, 2)) : placeholder\<close>. \<open>SwRawDump v\<close> stands for the text
  \<open>JSON.stringify(v, null, 2)\<close>.
\<close>

datatype sw_display = SwScript jsval | SwRawDump jsval | SwPlaceholder

definition sw_render :: "script_writer \<Rightarrow> sw_display" where
  "sw_render s =
     (let out = sw_out s
      in if truthy out
         then (if truthy (get_prop out ''structured_script'') then SwScript (get_prop out ''structured_script'')
               else if truthy (get_prop out ''final_script'') then SwScript (get_prop out ''final_script'')
               else SwRawDump out)
         else SwPlaceholder)"

section \<open>Object URL discipline\<close>

text \<open>
  Replaying a log of creates and revokes under the discipline of one slot: a URL is
  created only while no URL is live and was never created before; a revoke releases
  exactly the live URL. The replay fails (\<open>None\<close>) on a leak into a second create, on a
  double release and on a release of a URL that is not live; otherwise it gives the live
  URL and the set of all URLs created so far.
\<close>

fun url_step :: "(nat option \<times> nat set) option \<Rightarrow> url_event \<Rightarrow> (nat option \<times> nat set) option" where
  "url_step None ev = None"
| "url_step (Some (live, used)) (Created u) =
     (if live = None \<and> u \<notin> used then Some (Some u, insert u used) else None)"
| "url_step (Some (live, used)) (Revoked u) =
     (if live = Some u then Some (None, used) else None)"

definition lifecycle :: "url_event list \<Rightarrow> (nat option \<times> nat set) option" where
  "lifecycle log = foldl url_step (Some (None, {})) log"

section \<open>VideoAnalyzer (src/pages/VideoAnalyzer.jsx)\<close>

definition VIDEO_API_URL :: string where
  "VIDEO_API_URL = ''https://arjun9036-multimodal-emotion-backend.hf.space/predict''"

text \<open>
  Besides the \<open>useState\<close> cells: \<open>va_effect\<close> is the value of \<open>preview\<close> that the cleanup
  registered by \<open>useEffect(..., [preview])\<close> has captured, \<open>va_mounted\<close> whether the
  component is mounted.
\<close>

record video_analyzer =
  va_file :: "file_obj option"
  va_preview :: "nat option"
  va_loading :: bool
  va_result :: jsval
  va_intendedEmotion :: string
  va_error :: string
  va_effect :: "nat option"
  va_mounted :: bool
  va_next_url :: nat
  va_url_log :: "url_event list"
  va_sent :: "request list"
  va_inflight :: nat

definition va_init :: video_analyzer where
  "va_init = \<lparr>va_file = None, va_preview = None, va_loading = False, va_result = Null,
     va_intendedEmotion = [], va_error = [], va_effect = None, va_mounted = True,
     va_next_url = 0, va_url_log = [], va_sent = [], va_inflight = 0\<rparr>"

text \<open>
  After the state updates of an event React renders again; when \<open>preview\<close> has changed
  it runs the cleanup of the previous effect, \<open>if (preview) URL.revokeObjectURL(preview)\<close>
  on the captured value, and registers the cleanup for the new value.
\<close>

definition va_commit :: "video_analyzer \<Rightarrow> video_analyzer" where
  "va_commit s =
     (if va_preview s = va_effect s then s
      else s\<lparr>va_url_log := va_url_log s @ (case va_effect s of None \<Rightarrow> [] | Some u \<Rightarrow> [Revoked u]),
             va_effect := va_preview s\<rparr>)"

text \<open>\<open>handleFileChange\<close>; \<open>selected\<close> is \<open>e.target.files[0]\<close>.\<close>

definition handleFileChange :: "video_analyzer \<Rightarrow> file_obj list \<Rightarrow> video_analyzer" where
  "handleFileChange s files =
     (case files of
        [] \<Rightarrow> s
      | selected # rest \<Rightarrow>
          s\<lparr>va_file := Some selected,
            va_preview := Some (va_next_url s),
            va_next_url := va_next_url s + 1,
            va_url_log := va_url_log s @ [Created (va_next_url s)],
            va_result := Null,
            va_error := []\<rparr>)"

text \<open>\<open>handleAnalyze\<close> up to the point where it awaits \<open>fetch\<close>.\<close>

definition handleAnalyze :: "video_analyzer \<Rightarrow> video_analyzer" where
  "handleAnalyze s =
     (case va_file s of
        None \<Rightarrow> s\<lparr>va_error := ''Please select a file first.''\<rparr>
      | Some f \<Rightarrow>
          s\<lparr>va_loading := True, va_error := [], va_result := Null,
            va_sent := va_sent s @
              [\<lparr>req_url = VIDEO_API_URL, req_method = ''POST'', req_headers = [],
                req_body = FormData [(''video'', FilePart f),
                                     (''user_emotion'', TextPart (va_intendedEmotion s))]\<rparr>],
            va_inflight := va_inflight s + 1\<rparr>)"

definition handleAnalyze_catch :: "video_analyzer \<Rightarrow> video_analyzer" where
  "handleAnalyze_catch s =
     s\<lparr>va_error := ''Failed to analyze video. Ensure the file isn'' @ [CHR 0x27] @
                    ''t too large and the backend is active.''\<rparr>"

text \<open>
  The rest of \<open>handleAnalyze\<close>. On a status that is not ok the body text is read and
  thrown inside an \<open>Error\<close>; the \<open>catch\<close> logs what it caught to the console and sets
  its own fixed message, whatever was thrown.
\<close>

definition handleAnalyze_resume :: "video_analyzer \<Rightarrow> fetch_result \<Rightarrow> video_analyzer" where
  "handleAnalyze_resume s r =
     (let s' =
        (case r of
           Rejected e \<Rightarrow> handleAnalyze_catch s
         | Resolved response \<Rightarrow>
             if \<not> resp_ok response then handleAnalyze_catch s
             else (case resp_json response of
                     Inl e \<Rightarrow> handleAnalyze_catch s
                   | Inr data \<Rightarrow> s\<lparr>va_result := data\<rparr>))
      in s'\<lparr>va_loading := False\<rparr>)"

datatype va_event =
    VaFileChange "file_obj list"
  | VaClickX
  | VaSetEmotion string
  | VaClickAnalyze
  | VaSettled fetch_result
  | VaUnmount

text \<open>
  The file input is rendered only while \<open>preview\<close> is null; the video, the X button, the
  emotion input and the Analyze button only while it is not; the Analyze button has
  \<open>disabled={loading}\<close>. Unmounting runs the registered cleanup; state updates of a
  request that settles after the unmount are dropped.
\<close>

fun va_step :: "video_analyzer \<Rightarrow> va_event \<Rightarrow> video_analyzer" where
  "va_step s (VaFileChange files) =
     (if \<not> va_mounted s \<or> va_preview s \<noteq> None then s
      else va_commit (handleFileChange s files))"
| "va_step s VaClickX =
     (if \<not> va_mounted s \<or> va_preview s = None then s
      else va_commit (s\<lparr>va_file := None, va_preview := None, va_result := Null\<rparr>))"
| "va_step s (VaSetEmotion e) =
     (if \<not> va_mounted s \<or> va_preview s = None then s
      else s\<lparr>va_intendedEmotion := e\<rparr>)"
| "va_step s VaClickAnalyze =
     (if \<not> va_mounted s \<or> va_preview s = None \<or> va_loading s then s
      else handleAnalyze s)"
| "va_step s (VaSettled r) =
     (if va_inflight s = 0 then s
      else if va_mounted s then handleAnalyze_resume (s\<lparr>va_inflight := va_inflight s - 1\<rparr>) r
      else s\<lparr>va_inflight := va_inflight s - 1\<rparr>)"
| "va_step s VaUnmount =
     (if \<not> va_mounted s then s
      else s\<lparr>va_url_log := va_url_log s @ (case va_effect s of None \<Rightarrow> [] | Some u \<Rightarrow> [Revoked u]),
             va_effect := None,
             va_mounted := False\<rparr>)"

definition va_run :: "va_event list \<Rightarrow> video_analyzer" where
  "va_run evs = foldl va_step va_init evs"

section \<open>EmotionDetector (single-file application)\<close>

text \<open>
  Besides the \<open>useState\<close> cells (\<open>src\<close> is \<open>None\<close> for the empty string): \<open>ed_dep\<close> is the
  value of \<open>file\<close> for which the effect \<open>useEffect(..., [file])\<close> last ran, \<open>ed_cleanup\<close>
  the URL that the cleanup it returned revokes (\<open>None\<close> when it returned none). The
  playback progress of the video element is left out.
\<close>

record emotion_detector =
  ed_file :: "file_obj option"
  ed_src :: "nat option"
  ed_emotion :: string
  ed_result :: jsval
  ed_error :: string
  ed_loading :: bool
  ed_dep :: "file_obj option"
  ed_cleanup :: "nat option"
  ed_mounted :: bool
  ed_next_url :: nat
  ed_url_log :: "url_event list"
  ed_sent :: "request list"
  ed_inflight :: nat

definition ed_init :: emotion_detector where
  "ed_init = \<lparr>ed_file = None, ed_src = None, ed_emotion = [], ed_result = Null,
     ed_error = [], ed_loading = False, ed_dep = None, ed_cleanup = None, ed_mounted = True,
     ed_next_url = 0, ed_url_log = [], ed_sent = [], ed_inflight = 0\<rparr>"

text \<open>
  The effect on \<open>[file]\<close>: when \<open>file\<close> has changed, the previous cleanup runs, then the
  effect body: without a file it sets \<open>src\<close> to the empty string and returns no cleanup,
  with a file it creates the URL, stores it in \<open>src\<close> and returns the cleanup that
  revokes it.
\<close>

definition ed_commit :: "emotion_detector \<Rightarrow> emotion_detector" where
  "ed_commit s =
     (if ed_file s = ed_dep s then s
      else
        let log1 = ed_url_log s @ (case ed_cleanup s of None \<Rightarrow> [] | Some u \<Rightarrow> [Revoked u])
        in (case ed_file s of
              None \<Rightarrow> s\<lparr>ed_url_log := log1, ed_src := None, ed_cleanup := None, ed_dep := None\<rparr>
            | Some f \<Rightarrow>
                s\<lparr>ed_url_log := log1 @ [Created (ed_next_url s)],
                  ed_next_url := ed_next_url s + 1,
                  ed_src := Some (ed_next_url s),
                  ed_cleanup := Some (ed_next_url s),
                  ed_dep := Some f\<rparr>))"

definition onFileSelected :: "emotion_detector \<Rightarrow> file_obj option \<Rightarrow> emotion_detector" where
  "onFileSelected s fo =
     (let s1 = s\<lparr>ed_error := [], ed_result := Null\<rparr>
      in case fo of
           None \<Rightarrow> s1\<lparr>ed_file := None\<rparr>
         | Some f \<Rightarrow>
             if \<not> prefix ''video/'' (ftype f) then s1\<lparr>ed_error := ''Please upload a valid video file''\<rparr>
             else if fsize f > 50 * 1024 * 1024 then s1\<lparr>ed_error := ''File too large (50MB max)''\<rparr>
             else s1\<lparr>ed_file := Some f\<rparr>)"

text \<open>\<open>analyze\<close> up to the point where it awaits \<open>fetch\<close>.\<close>

definition analyze :: "emotion_detector \<Rightarrow> emotion_detector" where
  "analyze s =
     (case ed_file s of
        None \<Rightarrow> s\<lparr>ed_error := ''Upload video and enter intended emotion''\<rparr>
      | Some f \<Rightarrow>
          if trim (ed_emotion s) = [] then s\<lparr>ed_error := ''Upload video and enter intended emotion''\<rparr>
          else
            s\<lparr>ed_loading := True, ed_error := [], ed_result := Null,
              ed_sent := ed_sent s @
                [\<lparr>req_url = EMOTION_API, req_method = ''POST'', req_headers = [],
                  req_body = FormData [(''video'', FilePart f),
                                       (''user_emotion'', TextPart (ed_emotion s))]\<rparr>],
              ed_inflight := ed_inflight s + 1\<rparr>)"

definition analyze_catch :: "emotion_detector \<Rightarrow> exn \<Rightarrow> emotion_detector" where
  "analyze_catch s e = s\<lparr>ed_error := (if emessage e \<noteq> [] then emessage e else exn_to_string e)\<rparr>"

definition analyze_resume :: "emotion_detector \<Rightarrow> fetch_result \<Rightarrow> emotion_detector" where
  "analyze_resume s r =
     (let s' =
        (case r of
           Rejected e \<Rightarrow> analyze_catch s e
         | Resolved resp \<Rightarrow>
             (case resp_json resp of
                Inl e \<Rightarrow> analyze_catch s e
              | Inr data \<Rightarrow>
                  if \<not> resp_ok resp
                  then analyze_catch s (new_Error (js_or (opt_chain data ''detail'') (Str ''Server error'')))
                  else s\<lparr>ed_result := data\<rparr>))
      in s'\<lparr>ed_loading := False\<rparr>)"

datatype ed_event =
    EdFiles "file_obj list"
  | EdSetEmotion string
  | EdClickAnalyze
  | EdClickClear
  | EdSettled fetch_result
  | EdUnmount

text \<open>
  The Analyze button is rendered with \<open>disabled={loading}\<close>; the file drop, the emotion
  input and Clear are always enabled.
\<close>

fun ed_step :: "emotion_detector \<Rightarrow> ed_event \<Rightarrow> emotion_detector" where
  "ed_step s (EdFiles files) =
     (if \<not> ed_mounted s then s else ed_commit (onFileSelected s (onFiles files)))"
| "ed_step s (EdSetEmotion e) =
     (if \<not> ed_mounted s then s else s\<lparr>ed_emotion := e\<rparr>)"
| "ed_step s EdClickAnalyze =
     (if \<not> ed_mounted s \<or> ed_loading s then s else analyze s)"
| "ed_step s EdClickClear =
     (if \<not> ed_mounted s then s
      else ed_commit (s\<lparr>ed_file := None, ed_src := None, ed_emotion := [],
                        ed_result := Null, ed_error := []\<rparr>))"
| "ed_step s (EdSettled r) =
     (if ed_inflight s = 0 then s
      else if ed_mounted s then analyze_resume (s\<lparr>ed_inflight := ed_inflight s - 1\<rparr>) r
      else s\<lparr>ed_inflight := ed_inflight s - 1\<rparr>)"
| "ed_step s EdUnmount =
     (if \<not> ed_mounted s then s
      else s\<lparr>ed_url_log := ed_url_log s @ (case ed_cleanup s of None \<Rightarrow> [] | Some u \<Rightarrow> [Revoked u]),
             ed_cleanup := None,
             ed_mounted := False\<rparr>)"

definition ed_run :: "ed_event list \<Rightarrow> emotion_detector" where
  "ed_run evs = foldl ed_step ed_init evs"

section \<open>Invariants of the reachable states\<close>

text \<open>
  ScriptTransformer: a request is outstanding exactly while \<open>loading\<close> is set; while it
  is, error and result are cleared; an error is never held together with a result.
\<close>

definition st_inv :: "script_transformer \<Rightarrow> bool" where
  "st_inv s \<longleftrightarrow>
     st_inflight s = (if st_loading s then 1 else 0) \<and>
     (st_loading s \<longrightarrow> st_error s = [] \<and> st_result s = Null) \<and>
     (st_error s \<noteq> [] \<longrightarrow> st_result s = Null)"

definition sw_inv :: "script_writer \<Rightarrow> bool" where
  "sw_inv s \<longleftrightarrow>
     sw_inflight s = (if sw_loading s then 1 else 0) \<and>
     (sw_loading s \<longrightarrow> sw_err s = [] \<and> sw_out s = Null) \<and>
     (sw_err s \<noteq> [] \<longrightarrow> sw_out s = Null) \<and>
     sw_genre s \<in> set genre_options"

definition va_inv :: "video_analyzer \<Rightarrow> bool" where
  "va_inv s \<longleftrightarrow>
     va_inflight s \<le> 1 \<and>
     (va_mounted s \<longrightarrow> va_inflight s = (if va_loading s then 1 else 0)) \<and>
     (va_loading s \<longrightarrow> va_error s = [] \<and> va_result s = Null) \<and>
     (va_error s \<noteq> [] \<longrightarrow> va_result s = Null) \<and>
     (va_file s = None \<longleftrightarrow> va_preview s = None) \<and>
     va_effect s = (if va_mounted s then va_preview s else None) \<and>
     lifecycle (va_url_log s) = Some (va_effect s, {..<va_next_url s})"

text \<open>The messages EmotionDetector sets without a network call.\<close>

definition validation_messages :: "string list" where
  "validation_messages = [''Upload video and enter intended emotion'',
     ''Please upload a valid video file'', ''File too large (50MB max)'']"

definition local_or_empty :: "string \<Rightarrow> bool" where
  "local_or_empty m \<longleftrightarrow> m = [] \<or> m \<in> set validation_messages"

definition ed_net_inv :: "emotion_detector \<Rightarrow> bool" where
  "ed_net_inv s \<longleftrightarrow>
     ed_inflight s \<le> 1 \<and>
     (ed_mounted s \<longrightarrow> ed_inflight s = (if ed_loading s then 1 else 0))"

definition ed_result_inv :: "emotion_detector \<Rightarrow> bool" where
  "ed_result_inv s \<longleftrightarrow>
     (ed_loading s \<longrightarrow> ed_result s = Null \<and> local_or_empty (ed_error s)) \<and>
     (ed_result s \<noteq> Null \<longrightarrow> local_or_empty (ed_error s))"

definition ed_url_inv :: "emotion_detector \<Rightarrow> bool" where
  "ed_url_inv s \<longleftrightarrow>
     (ed_mounted s \<longrightarrow> ed_dep s = ed_file s \<and> ed_src s = ed_cleanup s) \<and>
     (\<not> ed_mounted s \<longrightarrow> ed_cleanup s = None) \<and>
     (ed_dep s = None \<longrightarrow> ed_cleanup s = None) \<and>
     lifecycle (ed_url_log s) = Some (ed_cleanup s, {..<ed_next_url s})"

definition ed_inv :: "emotion_detector \<Rightarrow> bool" where
  "ed_inv s \<longleftrightarrow> ed_net_inv s \<and> ed_result_inv s \<and> ed_url_inv s"

section \<open>Sample inputs\<close>

definition sample_pdf :: file_obj where
  "sample_pdf = \<lparr>ref = 1, fname = ''draft.pdf'', ftype = ''application/pdf'', fsize = 20000\<rparr>"

definition sample_clip :: file_obj where
  "sample_clip = \<lparr>ref = 2, fname = ''take1.mp4'', ftype = ''video/mp4'', fsize = 3000000\<rparr>"

definition second_clip :: file_obj where
  "second_clip = \<lparr>ref = 3, fname = ''take2.mp4'', ftype = ''video/mp4'', fsize = 4000000\<rparr>"

definition large_clip :: file_obj where
  "large_clip = \<lparr>ref = 4, fname = ''long.mp4'', ftype = ''video/mp4'', fsize = 50 * 1024 * 1024 + 1\<rparr>"

text \<open>ScriptTransformer with a draft typed in and a genre that starts with a blank.\<close>

definition st_noir :: script_transformer where
  "st_noir = st_run [StSetText ''John sits at the cafe.'', StSetGenre '' Noir'']"

text \<open>Each component with a draft entered and the submit button pressed once.\<close>

definition st_pending :: "st_event list" where
  "st_pending = [StSetText ''John sits at the cafe.'', StSetGenre ''Noir'', StClickGenerate]"

definition sw_pending :: "sw_event list" where
  "sw_pending = [SwSetText ''John sits at the cafe.'', SwClickGenerate]"

definition va_pending :: "va_event list" where
  "va_pending = [VaFileChange [sample_clip], VaClickAnalyze]"

definition ed_pending :: "ed_event list" where
  "ed_pending = [EdFiles [sample_clip], EdSetEmotion ''Joy'', EdClickAnalyze]"

text \<open>The emotion components with a clip selected, and after a whole session.\<close>

definition ed_showing :: "ed_event list" where
  "ed_showing = [EdFiles [sample_clip], EdSetEmotion ''Joy'']"

definition va_showing :: "va_event list" where
  "va_showing = [VaFileChange [sample_clip], VaSetEmotion ''Joy'']"

definition ed_closed :: "ed_event list" where
  "ed_closed = [EdFiles [sample_clip], EdFiles [second_clip], EdUnmount]"

definition va_closed :: "va_event list" where
  "va_closed = [VaFileChange [sample_clip], VaClickX, VaFileChange [second_clip], VaUnmount]"

text \<open>ScriptWriter with every input changed.\<close>

definition sw_edited :: "sw_event list" where
  "sw_edited = [SwSetGenre ''Thriller'', SwSetText ''John sits at the cafe.'', SwFiles [sample_pdf]]"

text \<open>VideoAnalyzer with a clip selected and the emotion field left empty.\<close>

definition va_selected :: "va_event list" where
  "va_selected = [VaFileChange [sample_clip]]"

text \<open>Responses and payloads: an error with a JSON detail, an error page, an analysis, and
  a script under a field name the renderers do not know; a double quote for their texts.\<close>

definition dq :: string where
  "dq = [CHR 0x22]"

definition detail_response :: response where
  "detail_response =
     \<lparr>resp_ok = False,
      resp_text = Inr (''{'' @ dq @ ''detail'' @ dq @ '':'' @ dq @ ''Model is loading'' @ dq @ ''}''),
      resp_json = Inr (Obj [(''detail'', Str ''Model is loading'')])\<rparr>"

definition html_response :: response where
  "html_response =
     \<lparr>resp_ok = False,
      resp_text = Inr ''<h1>502 Bad Gateway</h1>'',
      resp_json = Inl \<lparr>ename = ''SyntaxError'', emessage = ''Unexpected token < in JSON at position 0''\<rparr>\<rparr>"

definition joy_payload :: jsval where
  "joy_payload = Obj [(''predicted_emotion'', Str ''Joy''), (''confidence'', Num 1), (''match'', Bool True)]"

definition joy_response :: response where
  "joy_response =
     \<lparr>resp_ok = True,
      resp_text = Inr (''{'' @ dq @ ''predicted_emotion'' @ dq @ '':'' @ dq @ ''Joy'' @ dq @ '','' @
                       dq @ ''confidence'' @ dq @ '':1,'' @ dq @ ''match'' @ dq @ '':true}''),
      resp_json = Inr joy_payload\<rparr>"

definition other_payload :: jsval where
  "other_payload = Obj [(''script'', Str ''INT. CAFE - DAY'')]"

definition other_response :: response where
  "other_response =
     \<lparr>resp_ok = True,
      resp_text = Inr (''{'' @ dq @ ''script'' @ dq @ '':'' @ dq @ ''INT. CAFE - DAY'' @ dq @ ''}''),
      resp_json = Inr other_payload\<rparr>"

definition ed_stale :: "ed_event list" where
  "ed_stale = ed_pending @ [EdSettled (Resolved joy_response), EdSetEmotion [], EdClickAnalyze]"

definition net_error :: exn where
  "net_error = \<lparr>ename = ''TypeError'', emessage = ''Failed to fetch''\<rparr>"

definition st_failed :: "st_event list" where
  "st_failed = st_pending @ [StSettled (Rejected net_error)]"

definition sw_failed :: "sw_event list" where
  "sw_failed = sw_pending @ [SwSettled (Rejected net_error)]"

definition va_failed :: "va_event list" where
  "va_failed = va_pending @ [VaSettled (Rejected net_error)]"

section \<open>The invariants hold in every reachable state\<close>

lemma foldl_invariant:
  assumes "P s" and "\<And>s e. P s \<Longrightarrow> P (f s e)"
  shows "P (foldl f s es)"
  using assms(1) by (induction es arbitrary: s) (auto intro: assms(2))

lemma lifecycle_append: "lifecycle (log @ evs) = foldl url_step (lifecycle log) evs"
  by (simp add: lifecycle_def)

lemma st_inv_step: "st_inv s \<Longrightarrow> st_inv (st_step s e)"
  by (cases e)
     (auto simp: st_inv_def handleGenerate_def handleGenerate_resume_def handleGenerate_catch_def
        Let_def split: fetch_result.splits sum.splits if_splits)

lemma st_inv_run: "st_inv (st_run evs)"
  unfolding st_run_def
proof (rule foldl_invariant)
  show "st_inv st_init" by (simp add: st_inv_def st_init_def)
qed (rule st_inv_step)

lemma sw_inv_step: "sw_inv s \<Longrightarrow> sw_inv (sw_step s e)"
  by (cases e)
     (auto simp: sw_inv_def submit_def submit_resume_def submit_catch_def
        Let_def split: fetch_result.splits sum.splits if_splits option.splits)

lemma sw_inv_run: "sw_inv (sw_run evs)"
  unfolding sw_run_def
proof (rule foldl_invariant)
  show "sw_inv sw_init" by (simp add: sw_inv_def sw_init_def genre_options_def)
qed (rule sw_inv_step)

lemma va_inv_step: "va_inv s \<Longrightarrow> va_inv (va_step s e)"
  by (cases e)
     (auto simp: va_inv_def va_commit_def handleFileChange_def handleAnalyze_def
        handleAnalyze_resume_def handleAnalyze_catch_def lifecycle_append lessThan_Suc
        Let_def split: fetch_result.splits sum.splits if_splits option.splits list.splits)

lemma va_inv_run: "va_inv (va_run evs)"
  unfolding va_run_def
proof (rule foldl_invariant)
  show "va_inv va_init" by (simp add: va_inv_def va_init_def lifecycle_def)
qed (rule va_inv_step)

lemma local_or_empty_simps:
  "local_or_empty []"
  "local_or_empty ''Upload video and enter intended emotion''"
  "local_or_empty ''Please upload a valid video file''"
  "local_or_empty ''File too large (50MB max)''"
  by (simp_all add: local_or_empty_def validation_messages_def)

text \<open>What \<open>onFileSelected\<close> and the effect leave alone.\<close>

lemma onFileSelected_other [simp]:
  "ed_loading (onFileSelected s fo) = ed_loading s"
  "ed_inflight (onFileSelected s fo) = ed_inflight s"
  "ed_mounted (onFileSelected s fo) = ed_mounted s"
  "ed_sent (onFileSelected s fo) = ed_sent s"
  "ed_src (onFileSelected s fo) = ed_src s"
  "ed_dep (onFileSelected s fo) = ed_dep s"
  "ed_cleanup (onFileSelected s fo) = ed_cleanup s"
  "ed_next_url (onFileSelected s fo) = ed_next_url s"
  "ed_url_log (onFileSelected s fo) = ed_url_log s"
  "ed_emotion (onFileSelected s fo) = ed_emotion s"
  "ed_result (onFileSelected s fo) = Null"
  by (simp_all add: onFileSelected_def Let_def split: option.splits)

lemma onFileSelected_error: "local_or_empty (ed_error (onFileSelected s fo))"
  by (simp add: onFileSelected_def Let_def local_or_empty_simps split: option.splits)

lemma ed_commit_other [simp]:
  "ed_loading (ed_commit s) = ed_loading s"
  "ed_inflight (ed_commit s) = ed_inflight s"
  "ed_mounted (ed_commit s) = ed_mounted s"
  "ed_sent (ed_commit s) = ed_sent s"
  "ed_emotion (ed_commit s) = ed_emotion s"
  "ed_result (ed_commit s) = ed_result s"
  "ed_error (ed_commit s) = ed_error s"
  "ed_file (ed_commit s) = ed_file s"
  "ed_dep (ed_commit s) = ed_file s"
  by (simp_all add: ed_commit_def Let_def split: option.splits)

lemma ed_net_step: "ed_net_inv s \<Longrightarrow> ed_net_inv (ed_step s e)"
  by (cases e)
     (auto simp: ed_net_inv_def analyze_def analyze_resume_def analyze_catch_def Let_def
        split: option.splits fetch_result.splits sum.splits)

lemma ed_result_step:
  assumes "ed_net_inv s" and "ed_result_inv s"
  shows "ed_result_inv (ed_step s e)"
proof (cases e)
  case (EdFiles files)
  from assms(2) show ?thesis
    unfolding EdFiles by (simp add: ed_result_inv_def onFileSelected_error)
next
  case (EdSettled r)
  from assms show ?thesis
    unfolding EdSettled
    by (auto simp: ed_net_inv_def ed_result_inv_def analyze_resume_def analyze_catch_def Let_def
          split: fetch_result.splits sum.splits)
qed (use assms(2) in \<open>auto simp: ed_result_inv_def analyze_def local_or_empty_simps split: option.splits\<close>)

lemma ed_url_step:
  assumes "ed_url_inv s"
  shows "ed_url_inv (ed_step s e)"
proof (cases e)
  case (EdFiles files)
  from assms show ?thesis
    unfolding EdFiles
    by (auto simp: ed_url_inv_def ed_commit_def lifecycle_append lessThan_Suc Let_def
          split: option.splits)
next
  case EdClickClear
  from assms show ?thesis
    unfolding EdClickClear
    by (auto simp: ed_url_inv_def ed_commit_def lifecycle_append Let_def split: option.splits)
next
  case (EdSettled r)
  from assms show ?thesis
    unfolding EdSettled
    by (auto simp: ed_url_inv_def analyze_resume_def analyze_catch_def Let_def
          split: fetch_result.splits sum.splits)
qed (use assms in \<open>auto simp: ed_url_inv_def analyze_def lifecycle_append split: option.splits\<close>)

lemma ed_inv_run: "ed_inv (ed_run evs)"
  unfolding ed_run_def
proof (rule foldl_invariant)
  show "ed_inv ed_init"
    by (simp add: ed_inv_def ed_net_inv_def ed_result_inv_def ed_url_inv_def ed_init_def
          lifecycle_def local_or_empty_simps)
next
  fix s e
  assume "ed_inv s"
  then show "ed_inv (ed_step s e)"
    by (simp add: ed_inv_def ed_net_step ed_result_step ed_url_step)
qed

lemma trim_Nil [simp]: "trim [] = []"
  by (simp add: trim_def)

section \<open>Request bodies\<close>

text \<open>
  C7, amended. A submit of ScriptTransformer with a draft that is not blank sends one
  JSON request whose \<open>genre\<close> field is \<open>Screenplay\<close> when the genre typed in is empty or
  all white space, and otherwise the genre with its leading and trailing white space
  removed (not the genre as typed). ScriptWriter, whose genre comes from a select of
  five fixed labels, sends the label as it is on its text path.
\<close>

theorem genre_field_trimmed_or_fallback:
  assumes "\<not> st_loading s" and "trim (st_text s) \<noteq> []"
    and "\<not> sw_loading (sw_run evs)" and "sw_pdf (sw_run evs) = None"
    and "trim (sw_text (sw_run evs)) \<noteq> []"
  shows "st_sent (st_step s StClickGenerate) = st_sent s @
           [\<lparr>req_url = SCRIPT_API_URL_TEXT, req_method = ''POST'',
             req_headers = [(''Content-Type'', ''application/json'')],
             req_body = JsonBody (Obj [(''original_script'', Str (st_text s)),
               (''genre'', Str (if trim (st_genre s) = [] then ''Screenplay''
                                else trim (st_genre s)))])\<rparr>]
       \<and> sw_sent (sw_step (sw_run evs) SwClickGenerate) = sw_sent (sw_run evs) @
           [\<lparr>req_url = SCRIPT_API @ ''/generate-script/'', req_method = ''POST'',
             req_headers = [(''Content-Type'', ''application/json'')],
             req_body = JsonBody (Obj [(''original_script'', Str (sw_text (sw_run evs))),
               (''genre'', Str (sw_genre (sw_run evs)))])\<rparr>]
       \<and> sw_genre (sw_run evs) \<in> set genre_options"
proof -
  from assms(2) have "st_text s \<noteq> []" by auto
  with assms(1,2) have "st_sent (st_step s StClickGenerate) = st_sent s @
           [\<lparr>req_url = SCRIPT_API_URL_TEXT, req_method = ''POST'',
             req_headers = [(''Content-Type'', ''application/json'')],
             req_body = JsonBody (Obj [(''original_script'', Str (st_text s)),
               (''genre'', Str (if trim (st_genre s) = [] then ''Screenplay''
                                else trim (st_genre s)))])\<rparr>]"
    by (simp add: handleGenerate_def Let_def)
  moreover from assms(3,4,5) have "sw_sent (sw_step (sw_run evs) SwClickGenerate) = sw_sent (sw_run evs) @
           [\<lparr>req_url = SCRIPT_API @ ''/generate-script/'', req_method = ''POST'',
             req_headers = [(''Content-Type'', ''application/json'')],
             req_body = JsonBody (Obj [(''original_script'', Str (sw_text (sw_run evs))),
               (''genre'', Str (sw_genre (sw_run evs)))])\<rparr>]"
    by (simp add: submit_def Let_def)
  moreover have "sw_genre (sw_run evs) \<in> set genre_options"
    using sw_inv_run [of evs] by (simp add: sw_inv_def)
  ultimately show ?thesis by simp
qed

theorem genre_field_trimmed_or_fallback_witness:
  "st_sent (st_step (st_run [StSetText ''John sits at the cafe.'', StSetGenre [CHR 0x20, CHR 0x09]])
      StClickGenerate) =
     [\<lparr>req_url = SCRIPT_API_URL_TEXT, req_method = ''POST'',
       req_headers = [(''Content-Type'', ''application/json'')],
       req_body = JsonBody (Obj [(''original_script'', Str ''John sits at the cafe.''),
                                 (''genre'', Str ''Screenplay'')])\<rparr>]
   \<and> sw_sent (sw_step (sw_run [SwSetGenre ''Thriller'', SwSetText ''John sits at the cafe.''])
      SwClickGenerate) =
     [\<lparr>req_url = SCRIPT_API @ ''/generate-script/'', req_method = ''POST'',
       req_headers = [(''Content-Type'', ''application/json'')],
       req_body = JsonBody (Obj [(''original_script'', Str ''John sits at the cafe.''),
                                 (''genre'', Str ''Thriller'')])\<rparr>]"
  using genre_field_trimmed_or_fallback
    [of "st_run [StSetText ''John sits at the cafe.'', StSetGenre [CHR 0x20, CHR 0x09]]"
        "[SwSetGenre ''Thriller'', SwSetText ''John sits at the cafe.'']"]
  by (simp add: st_run_def st_init_def sw_run_def sw_init_def genre_options_def trim_def
        is_white_space_def)

text \<open>
  The claim as it was written fails: with the genre \<open>'' Noir''\<close>, which is not blank, the
  field sent is \<open>''Noir''\<close>, not the genre.
\<close>

theorem genre_field_verbatim_counterexample:
  "trim (st_genre st_noir) \<noteq> [] \<and>
   st_sent (st_step st_noir StClickGenerate) \<noteq>
     [\<lparr>req_url = SCRIPT_API_URL_TEXT, req_method = ''POST'',
       req_headers = [(''Content-Type'', ''application/json'')],
       req_body = JsonBody (Obj [(''original_script'', Str (st_text st_noir)),
                                 (''genre'', Str (st_genre st_noir))])\<rparr>] \<and>
   st_sent (st_step st_noir StClickGenerate) =
     [\<lparr>req_url = SCRIPT_API_URL_TEXT, req_method = ''POST'',
       req_headers = [(''Content-Type'', ''application/json'')],
       req_body = JsonBody (Obj [(''original_script'', Str ''John sits at the cafe.''),
                                 (''genre'', Str ''Noir'')])\<rparr>]"
  by (simp add: st_noir_def st_run_def st_init_def handleGenerate_def Let_def trim_def
        is_white_space_def)

text \<open>
  C10. In ScriptWriter, when a document is selected, a submit sends one multipart request
  to the document endpoint with the file and the genre; the request is the same whatever
  the pasted text is, so the text is not sent.
\<close>

theorem document_path_precedence:
  assumes "sw_pdf s = Some pdf" and "\<not> sw_loading s"
  shows "sw_sent (sw_step (s\<lparr>sw_text := t\<rparr>) SwClickGenerate) = sw_sent s @
           [\<lparr>req_url = SCRIPT_API @ ''/generate-script-from-pdf/'', req_method = ''POST'',
             req_headers = [],
             req_body = FormData [(''file'', FilePart pdf), (''genre'', TextPart (sw_genre s))]\<rparr>]"
  using assms by (simp add: submit_def Let_def)

theorem document_path_precedence_witness:
  "sw_sent (sw_step ((sw_run [SwFiles [sample_pdf]])\<lparr>sw_text := ''John sits at the cafe.''\<rparr>)
      SwClickGenerate) =
     [\<lparr>req_url = SCRIPT_API @ ''/generate-script-from-pdf/'', req_method = ''POST'',
       req_headers = [],
       req_body = FormData [(''file'', FilePart sample_pdf), (''genre'', TextPart ''Drama'')]\<rparr>]"
  using document_path_precedence
    [of "sw_run [SwFiles [sample_pdf]]" sample_pdf "''John sits at the cafe.''"]
  by (simp add: sw_run_def sw_init_def)

section \<open>One request at a time\<close>

lemma pending_loading:
  "st_loading (st_run st_pending)" "sw_loading (sw_run sw_pending)"
  "va_loading (va_run va_pending)" "ed_loading (ed_run ed_pending)"
  by (simp_all add: st_pending_def sw_pending_def va_pending_def ed_pending_def
        st_run_def sw_run_def va_run_def ed_run_def st_init_def sw_init_def va_init_def ed_init_def
        handleGenerate_def submit_def handleAnalyze_def analyze_def handleFileChange_def
        va_commit_def ed_commit_def onFileSelected_def sample_clip_def
        trim_def is_white_space_def Let_def)

text \<open>
  C1. In every reachable state of each of the four components at most one request is
  outstanding, and while \<open>loading\<close> is set a press of the submit button leaves the state
  as it is: no request is added and no cell changes. (The guard is the \<open>disabled\<close>
  attribute of the button, which is the only caller of the handler; the handlers
  themselves do not test \<open>loading\<close>.)
\<close>

theorem at_most_one_in_flight:
  "st_inflight (st_run e1) \<le> 1 \<and>
   (st_loading (st_run e1) \<longrightarrow> st_step (st_run e1) StClickGenerate = st_run e1) \<and>
   sw_inflight (sw_run e2) \<le> 1 \<and>
   (sw_loading (sw_run e2) \<longrightarrow> sw_step (sw_run e2) SwClickGenerate = sw_run e2) \<and>
   va_inflight (va_run e3) \<le> 1 \<and>
   (va_loading (va_run e3) \<longrightarrow> va_step (va_run e3) VaClickAnalyze = va_run e3) \<and>
   ed_inflight (ed_run e4) \<le> 1 \<and>
   (ed_loading (ed_run e4) \<longrightarrow> ed_step (ed_run e4) EdClickAnalyze = ed_run e4)"
proof -
  have "st_inflight (st_run e1) \<le> 1"
    using st_inv_run [of e1] by (simp add: st_inv_def)
  moreover have "sw_inflight (sw_run e2) \<le> 1"
    using sw_inv_run [of e2] by (simp add: sw_inv_def)
  moreover have "va_inflight (va_run e3) \<le> 1"
    using va_inv_run [of e3] by (simp add: va_inv_def)
  moreover have "ed_inflight (ed_run e4) \<le> 1"
    using ed_inv_run [of e4] by (simp add: ed_inv_def ed_net_inv_def)
  ultimately show ?thesis by simp
qed

theorem at_most_one_in_flight_witness:
  "st_loading (st_run st_pending) \<and>
   st_step (st_run st_pending) StClickGenerate = st_run st_pending \<and>
   sw_loading (sw_run sw_pending) \<and>
   sw_step (sw_run sw_pending) SwClickGenerate = sw_run sw_pending \<and>
   va_loading (va_run va_pending) \<and>
   va_step (va_run va_pending) VaClickAnalyze = va_run va_pending \<and>
   ed_loading (ed_run ed_pending) \<and>
   ed_step (ed_run ed_pending) EdClickAnalyze = ed_run ed_pending"
  using at_most_one_in_flight [of st_pending sw_pending va_pending ed_pending] pending_loading
  by blast

section \<open>Preview URLs\<close>

lemma lifecycle_live_used:
  "lifecycle log = Some (live, used) \<Longrightarrow> live = Some u \<Longrightarrow> u \<in> used"
proof (induction log arbitrary: live used rule: rev_induct)
  case Nil
  then show ?case by (simp add: lifecycle_def)
next
  case (snoc ev log)
  from snoc.prems obtain live0 used0 where l0: "lifecycle log = Some (live0, used0)"
    by (cases "lifecycle log") (auto simp: lifecycle_append)
  from snoc.prems l0 show ?case
    by (cases ev) (auto simp: lifecycle_append split: if_splits)
qed

lemma lifecycle_counts:
  "lifecycle log = Some (live, used) \<Longrightarrow>
     count_list log (Created u) = (if u \<in> used then 1 else 0) \<and>
     count_list log (Revoked u) = (if u \<in> used \<and> live \<noteq> Some u then 1 else 0)"
proof (induction log arbitrary: live used rule: rev_induct)
  case Nil
  then show ?case by (simp add: lifecycle_def)
next
  case (snoc ev log)
  from snoc.prems obtain live0 used0 where l0: "lifecycle log = Some (live0, used0)"
    by (cases "lifecycle log") (auto simp: lifecycle_append)
  note ih = snoc.IH [OF l0]
  from snoc.prems l0 show ?case
    using ih lifecycle_live_used [OF l0]
    by (cases ev) (auto simp: lifecycle_append split: if_splits)
qed

lemma ed_lifecycle_run:
  "lifecycle (ed_url_log (ed_run evs)) =
     Some (if ed_mounted (ed_run evs) then ed_src (ed_run evs) else None, {..<ed_next_url (ed_run evs)})"
  using ed_inv_run [of evs] by (auto simp: ed_inv_def ed_url_inv_def)

lemma va_lifecycle_run:
  "lifecycle (va_url_log (va_run evs)) =
     Some (if va_mounted (va_run evs) then va_preview (va_run evs) else None, {..<va_next_url (va_run evs)})"
  using va_inv_run [of evs] by (auto simp: va_inv_def)

lemma onFileSelected_valid:
  "prefix ''video/'' (ftype f) \<Longrightarrow> fsize f \<le> 50 * 1024 * 1024 \<Longrightarrow>
     onFileSelected s (Some f) = s\<lparr>ed_error := [], ed_result := Null, ed_file := Some f\<rparr>"
  by (simp add: onFileSelected_def Let_def)

lemma ed_replace_log:
  assumes "ed_mounted (ed_run evs)" and "prefix ''video/'' (ftype f)" and "fsize f \<le> 50 * 1024 * 1024"
    and "ed_file (ed_run evs) \<noteq> Some f"
  shows "ed_url_log (ed_step (ed_run evs) (EdFiles (f # fs))) =
           ed_url_log (ed_run evs) @
           (case ed_src (ed_run evs) of None \<Rightarrow> [] | Some a \<Rightarrow> [Revoked a]) @
           [Created (ed_next_url (ed_run evs))]"
  using ed_inv_run [of evs] assms
  by (auto simp: ed_inv_def ed_url_inv_def onFileSelected_valid ed_commit_def Let_def split: option.splits)

lemma ed_unmount_log:
  "ed_url_log (ed_step (ed_run evs) EdUnmount) =
     ed_url_log (ed_run evs) @
     (if ed_mounted (ed_run evs)
      then (case ed_src (ed_run evs) of None \<Rightarrow> [] | Some a \<Rightarrow> [Revoked a]) else [])"
  using ed_inv_run [of evs]
  by (auto simp: ed_inv_def ed_url_inv_def split: option.splits)

lemma va_unmount_log:
  "va_url_log (va_step (va_run evs) VaUnmount) =
     va_url_log (va_run evs) @
     (if va_mounted (va_run evs)
      then (case va_preview (va_run evs) of None \<Rightarrow> [] | Some a \<Rightarrow> [Revoked a]) else [])"
  using va_inv_run [of evs]
  by (auto simp: va_inv_def split: option.splits)

lemma va_select_log:
  "va_url_log (va_step (va_run evs) (VaFileChange (g # gs))) =
     va_url_log (va_run evs) @
     (if va_mounted (va_run evs) \<and> va_preview (va_run evs) = None
      then [Created (va_next_url (va_run evs))] else [])"
  using va_inv_run [of evs]
  by (auto simp: va_inv_def handleFileChange_def va_commit_def split: option.splits)

lemma ed_showing_eval:
  "ed_mounted (ed_run ed_showing)" "ed_file (ed_run ed_showing) = Some sample_clip"
  "ed_src (ed_run ed_showing) = Some 0" "ed_next_url (ed_run ed_showing) = 1"
  "ed_url_log (ed_run ed_showing) = [Created 0]"
  by (simp_all add: ed_showing_def ed_run_def ed_init_def ed_commit_def onFileSelected_def
        sample_clip_def Let_def)

lemma ed_closed_eval:
  "\<not> ed_mounted (ed_run ed_closed)" "ed_next_url (ed_run ed_closed) = 2"
  by (simp_all add: ed_closed_def ed_run_def ed_init_def ed_commit_def onFileSelected_def
        sample_clip_def second_clip_def Let_def)

lemma va_closed_eval:
  "\<not> va_mounted (va_run va_closed)" "va_next_url (va_run va_closed) = 2"
  by (simp_all add: va_closed_def va_run_def va_init_def va_commit_def handleFileChange_def
        sample_clip_def second_clip_def Let_def)

lemma va_showing_eval:
  "va_mounted (va_run va_showing)" "va_preview (va_run va_showing) = Some 0"
  "va_url_log (va_run va_showing) = [Created 0]"
  by (simp_all add: va_showing_def va_run_def va_init_def va_commit_def handleFileChange_def
        sample_clip_def Let_def)

text \<open>
  C3. The preview URLs of both emotion components are created and revoked in strict
  pairs. In EmotionDetector, accepting a new file appends the revoke of the URL shown
  (if any) and then the create of the new one; in VideoAnalyzer a file can be selected
  only while no preview is held, so the previous URL was revoked by the X button
  before. Unmounting appends exactly one revoke when a preview is held and nothing
  otherwise. Over every event sequence the log replays under the one-slot discipline,
  the only URL not yet revoked being the preview of a mounted component; every URL
  created occurs once as a create and, unless it is that preview, once as a revoke.
\<close>

theorem preview_url_lifecycle:
  assumes "ed_mounted (ed_run evs)" and "prefix ''video/'' (ftype f)"
    and "fsize f \<le> 50 * 1024 * 1024" and "ed_file (ed_run evs) \<noteq> Some f"
  shows "ed_url_log (ed_step (ed_run evs) (EdFiles (f # fs))) =
           ed_url_log (ed_run evs) @
           (case ed_src (ed_run evs) of None \<Rightarrow> [] | Some a \<Rightarrow> [Revoked a]) @
           [Created (ed_next_url (ed_run evs))]
       \<and> ed_url_log (ed_step (ed_run evs) EdUnmount) =
           ed_url_log (ed_run evs) @
           (case ed_src (ed_run evs) of None \<Rightarrow> [] | Some a \<Rightarrow> [Revoked a])
       \<and> lifecycle (ed_url_log (ed_run tr)) =
           Some (if ed_mounted (ed_run tr) then ed_src (ed_run tr) else None,
                 {..<ed_next_url (ed_run tr)})
       \<and> count_list (ed_url_log (ed_run tr)) (Created u) =
           (if u < ed_next_url (ed_run tr) then 1 else 0)
       \<and> count_list (ed_url_log (ed_run tr)) (Revoked u) =
           (if u < ed_next_url (ed_run tr) \<and>
               (if ed_mounted (ed_run tr) then ed_src (ed_run tr) else None) \<noteq> Some u
            then 1 else 0)
       \<and> va_url_log (va_step (va_run vs) (VaFileChange (g # gs))) =
           va_url_log (va_run vs) @
           (if va_mounted (va_run vs) \<and> va_preview (va_run vs) = None
            then [Created (va_next_url (va_run vs))] else [])
       \<and> va_url_log (va_step (va_run vs) VaUnmount) =
           va_url_log (va_run vs) @
           (if va_mounted (va_run vs)
            then (case va_preview (va_run vs) of None \<Rightarrow> [] | Some a \<Rightarrow> [Revoked a]) else [])
       \<and> lifecycle (va_url_log (va_run vs)) =
           Some (if va_mounted (va_run vs) then va_preview (va_run vs) else None,
                 {..<va_next_url (va_run vs)})
       \<and> count_list (va_url_log (va_run vs)) (Created u) =
           (if u < va_next_url (va_run vs) then 1 else 0)
       \<and> count_list (va_url_log (va_run vs)) (Revoked u) =
           (if u < va_next_url (va_run vs) \<and>
               (if va_mounted (va_run vs) then va_preview (va_run vs) else None) \<noteq> Some u
            then 1 else 0)"
proof -
  note ed_counts = lifecycle_counts [OF ed_lifecycle_run, of tr u]
  note va_counts = lifecycle_counts [OF va_lifecycle_run, of vs u]
  have "ed_url_log (ed_step (ed_run evs) EdUnmount) =
           ed_url_log (ed_run evs) @
           (case ed_src (ed_run evs) of None \<Rightarrow> [] | Some a \<Rightarrow> [Revoked a])"
    using assms(1) by (simp only: ed_unmount_log if_True)
  moreover have "count_list (ed_url_log (ed_run tr)) (Created u) =
           (if u < ed_next_url (ed_run tr) then 1 else 0)"
    using ed_counts by simp
  moreover have "count_list (ed_url_log (ed_run tr)) (Revoked u) =
           (if u < ed_next_url (ed_run tr) \<and>
               (if ed_mounted (ed_run tr) then ed_src (ed_run tr) else None) \<noteq> Some u
            then 1 else 0)"
    using ed_counts by simp
  moreover have "count_list (va_url_log (va_run vs)) (Created u) =
           (if u < va_next_url (va_run vs) then 1 else 0)"
    using va_counts by simp
  moreover have "count_list (va_url_log (va_run vs)) (Revoked u) =
           (if u < va_next_url (va_run vs) \<and>
               (if va_mounted (va_run vs) then va_preview (va_run vs) else None) \<noteq> Some u
            then 1 else 0)"
    using va_counts by simp
  ultimately show ?thesis
    using ed_replace_log [OF assms] ed_lifecycle_run [of tr] va_select_log [of vs g gs]
      va_unmount_log [of vs] va_lifecycle_run [of vs]
    by (simp only: simp_thms)
qed

theorem preview_url_lifecycle_witness:
  "ed_url_log (ed_step (ed_run ed_showing) (EdFiles [second_clip])) =
     [Created 0, Revoked 0, Created 1]
   \<and> ed_url_log (ed_step (ed_run ed_showing) EdUnmount) = [Created 0, Revoked 0]
   \<and> lifecycle (ed_url_log (ed_run ed_closed)) = Some (None, {..<2})
   \<and> count_list (ed_url_log (ed_run ed_closed)) (Created 1) = 1
   \<and> count_list (ed_url_log (ed_run ed_closed)) (Revoked 1) = 1
   \<and> lifecycle (va_url_log (va_run va_closed)) = Some (None, {..<2})
   \<and> count_list (va_url_log (va_run va_closed)) (Created 1) = 1
   \<and> count_list (va_url_log (va_run va_closed)) (Revoked 1) = 1"
  using preview_url_lifecycle [of ed_showing second_clip "[]" ed_closed 1 va_closed sample_clip "[]"]
    ed_showing_eval ed_closed_eval va_closed_eval
  by (simp add: second_clip_def sample_clip_def)

section \<open>Reset and clear\<close>

lemma sw_edited_eval:
  "sw_genre (sw_run sw_edited) = ''Thriller''" "sw_pdf (sw_run sw_edited) = Some sample_pdf"
  "sw_text (sw_run sw_edited) = ''John sits at the cafe.''"
  by (simp_all add: sw_edited_def sw_run_def sw_init_def genre_options_def)

lemma ed_clear_fields:
  assumes "ed_mounted s"
  shows "ed_file (ed_step s EdClickClear) = None" "ed_src (ed_step s EdClickClear) = None"
    "ed_emotion (ed_step s EdClickClear) = []" "ed_result (ed_step s EdClickClear) = Null"
    "ed_error (ed_step s EdClickClear) = []" "ed_loading (ed_step s EdClickClear) = ed_loading s"
  using assms by (simp_all add: ed_commit_def Let_def)

lemma ed_clear_log:
  assumes "ed_mounted (ed_run evs)"
  shows "ed_url_log (ed_step (ed_run evs) EdClickClear) =
           ed_url_log (ed_run evs) @
           (case ed_src (ed_run evs) of None \<Rightarrow> [] | Some a \<Rightarrow> [Revoked a])"
    and "lifecycle (ed_url_log (ed_step (ed_run evs) EdClickClear)) =
           Some (None, {..<ed_next_url (ed_run evs)})"
  using ed_inv_run [of evs] assms
  by (auto simp: ed_inv_def ed_url_inv_def ed_commit_def lifecycle_append Let_def split: option.splits)

lemma va_x_fields:
  assumes "va_mounted s" and "va_preview s = Some a"
  shows "va_file (va_step s VaClickX) = None" "va_preview (va_step s VaClickX) = None"
    "va_result (va_step s VaClickX) = Null"
    "va_intendedEmotion (va_step s VaClickX) = va_intendedEmotion s"
    "va_error (va_step s VaClickX) = va_error s" "va_loading (va_step s VaClickX) = va_loading s"
  using assms by (simp_all add: va_commit_def)

lemma va_x_log:
  assumes "va_mounted (va_run evs)" and "va_preview (va_run evs) = Some a"
  shows "va_url_log (va_step (va_run evs) VaClickX) = va_url_log (va_run evs) @ [Revoked a]"
    and "lifecycle (va_url_log (va_step (va_run evs) VaClickX)) =
           Some (None, {..<va_next_url (va_run evs)})"
  using va_inv_run [of evs] assms
  by (auto simp: va_inv_def va_commit_def lifecycle_append split: option.splits)

text \<open>
  C8, amended. After any sequence of events, ScriptWriter's Reset returns the text, the
  selected document, the result and the error to their initial values and leaves the
  genre and the pending flag as they are; EmotionDetector's Clear returns the file, the
  preview, the emotion label, the result and the error to their initial values and
  leaves the pending flag; VideoAnalyzer's X button returns the file, the preview and
  the result to their initial values and leaves the intended emotion, the error and the
  pending flag. A preview URL that is held is revoked by exactly one log entry, after
  which no URL is live.
\<close>

theorem reset_clears_listed_fields:
  assumes "ed_mounted (ed_run es)" and "va_mounted (va_run vs)"
    and "va_preview (va_run vs) = Some a"
  shows "sw_text (sw_step (sw_run ws) SwClickReset) = sw_text sw_init
       \<and> sw_pdf (sw_step (sw_run ws) SwClickReset) = sw_pdf sw_init
       \<and> sw_out (sw_step (sw_run ws) SwClickReset) = sw_out sw_init
       \<and> sw_err (sw_step (sw_run ws) SwClickReset) = sw_err sw_init
       \<and> sw_genre (sw_step (sw_run ws) SwClickReset) = sw_genre (sw_run ws)
       \<and> sw_loading (sw_step (sw_run ws) SwClickReset) = sw_loading (sw_run ws)
       \<and> ed_file (ed_step (ed_run es) EdClickClear) = ed_file ed_init
       \<and> ed_src (ed_step (ed_run es) EdClickClear) = ed_src ed_init
       \<and> ed_emotion (ed_step (ed_run es) EdClickClear) = ed_emotion ed_init
       \<and> ed_result (ed_step (ed_run es) EdClickClear) = ed_result ed_init
       \<and> ed_error (ed_step (ed_run es) EdClickClear) = ed_error ed_init
       \<and> ed_loading (ed_step (ed_run es) EdClickClear) = ed_loading (ed_run es)
       \<and> ed_url_log (ed_step (ed_run es) EdClickClear) =
           ed_url_log (ed_run es) @
           (case ed_src (ed_run es) of None \<Rightarrow> [] | Some b \<Rightarrow> [Revoked b])
       \<and> lifecycle (ed_url_log (ed_step (ed_run es) EdClickClear)) =
           Some (None, {..<ed_next_url (ed_run es)})
       \<and> va_file (va_step (va_run vs) VaClickX) = va_file va_init
       \<and> va_preview (va_step (va_run vs) VaClickX) = va_preview va_init
       \<and> va_result (va_step (va_run vs) VaClickX) = va_result va_init
       \<and> va_intendedEmotion (va_step (va_run vs) VaClickX) = va_intendedEmotion (va_run vs)
       \<and> va_error (va_step (va_run vs) VaClickX) = va_error (va_run vs)
       \<and> va_loading (va_step (va_run vs) VaClickX) = va_loading (va_run vs)
       \<and> va_url_log (va_step (va_run vs) VaClickX) = va_url_log (va_run vs) @ [Revoked a]
       \<and> lifecycle (va_url_log (va_step (va_run vs) VaClickX)) =
           Some (None, {..<va_next_url (va_run vs)})"
proof -
  have sw: "sw_text (sw_step (sw_run ws) SwClickReset) = sw_text sw_init
       \<and> sw_pdf (sw_step (sw_run ws) SwClickReset) = sw_pdf sw_init
       \<and> sw_out (sw_step (sw_run ws) SwClickReset) = sw_out sw_init
       \<and> sw_err (sw_step (sw_run ws) SwClickReset) = sw_err sw_init
       \<and> sw_genre (sw_step (sw_run ws) SwClickReset) = sw_genre (sw_run ws)
       \<and> sw_loading (sw_step (sw_run ws) SwClickReset) = sw_loading (sw_run ws)"
    by (simp add: sw_init_def)
  have ed: "ed_file (ed_step (ed_run es) EdClickClear) = ed_file ed_init
       \<and> ed_src (ed_step (ed_run es) EdClickClear) = ed_src ed_init
       \<and> ed_emotion (ed_step (ed_run es) EdClickClear) = ed_emotion ed_init
       \<and> ed_result (ed_step (ed_run es) EdClickClear) = ed_result ed_init
       \<and> ed_error (ed_step (ed_run es) EdClickClear) = ed_error ed_init
       \<and> ed_loading (ed_step (ed_run es) EdClickClear) = ed_loading (ed_run es)"
    using ed_clear_fields [OF assms(1)] by (simp add: ed_init_def)
  have va: "va_file (va_step (va_run vs) VaClickX) = va_file va_init
       \<and> va_preview (va_step (va_run vs) VaClickX) = va_preview va_init
       \<and> va_result (va_step (va_run vs) VaClickX) = va_result va_init
       \<and> va_intendedEmotion (va_step (va_run vs) VaClickX) = va_intendedEmotion (va_run vs)
       \<and> va_error (va_step (va_run vs) VaClickX) = va_error (va_run vs)
       \<and> va_loading (va_step (va_run vs) VaClickX) = va_loading (va_run vs)"
    using va_x_fields [OF assms(2,3)] by (simp add: va_init_def)
  from sw ed va ed_clear_log [OF assms(1)] va_x_log [OF assms(2,3)]
  show ?thesis by (simp only: simp_thms)
qed

theorem reset_clears_listed_fields_witness:
  "sw_text (sw_step (sw_run sw_edited) SwClickReset) = []
   \<and> sw_pdf (sw_step (sw_run sw_edited) SwClickReset) = None
   \<and> ed_file (ed_step (ed_run ed_showing) EdClickClear) = None
   \<and> ed_emotion (ed_step (ed_run ed_showing) EdClickClear) = []
   \<and> ed_url_log (ed_step (ed_run ed_showing) EdClickClear) = [Created 0, Revoked 0]
   \<and> va_file (va_step (va_run va_showing) VaClickX) = None
   \<and> va_intendedEmotion (va_step (va_run va_showing) VaClickX) = ''Joy''
   \<and> va_url_log (va_step (va_run va_showing) VaClickX) = [Created 0, Revoked 0]"
  using reset_clears_listed_fields [of ed_showing va_showing 0 sw_edited]
    ed_showing_eval va_showing_eval
  by (simp add: sw_init_def ed_init_def va_init_def va_showing_def va_run_def handleFileChange_def
        va_commit_def sample_clip_def)

text \<open>
  The claim as it was written fails on the label: ScriptWriter's Reset keeps the genre
  chosen, and VideoAnalyzer's X keeps the intended emotion typed in.
\<close>

theorem reset_keeps_genre_counterexample:
  "sw_genre (sw_step (sw_run sw_edited) SwClickReset) = ''Thriller'' \<and>
   sw_genre sw_init = ''Drama'' \<and>
   va_intendedEmotion (va_step (va_run va_showing) VaClickX) = ''Joy'' \<and>
   va_intendedEmotion va_init = []"
  by (simp add: sw_edited_eval sw_init_def va_init_def va_showing_def va_run_def
        handleFileChange_def va_commit_def sample_clip_def)

section \<open>Validation before the request\<close>

lemma onFileSelected_rejected:
  assumes "\<not> prefix ''video/'' (ftype f) \<or> 50 * 1024 * 1024 < fsize f"
  shows "onFileSelected s (Some f) =
           s\<lparr>ed_error := (if \<not> prefix ''video/'' (ftype f) then ''Please upload a valid video file''
                           else ''File too large (50MB max)''),
             ed_result := Null\<rparr>"
  using assms by (auto simp: onFileSelected_def Let_def)

lemma ed_commit_idle: "ed_file s = ed_dep s \<Longrightarrow> ed_commit s = s"
  by (simp add: ed_commit_def)

lemma ed_run_dep: "ed_mounted (ed_run es) \<Longrightarrow> ed_dep (ed_run es) = ed_file (ed_run es)"
  using ed_inv_run [of es] by (simp add: ed_inv_def ed_url_inv_def)

text \<open>
  C2, amended. In EmotionDetector, selecting a file whose type does not start with
  \<open>video/\<close>, or whose size exceeds 50 MiB, changes nothing but the error, which becomes
  the validation message, and the result, which is cleared: the file selected before
  (or none) stays, and no request is sent. VideoAnalyzer has no such check: it takes
  whatever file is selected, creates its preview and sets no error.
\<close>

theorem emotion_detector_gates_selection:
  assumes "ed_mounted (ed_run es)"
    and "\<not> prefix ''video/'' (ftype f) \<or> 50 * 1024 * 1024 < fsize f"
    and "va_mounted v" and "va_preview v = None"
  shows "ed_step (ed_run es) (EdFiles (f # fs)) =
           (ed_run es)\<lparr>ed_error := (if \<not> prefix ''video/'' (ftype f)
                                     then ''Please upload a valid video file''
                                     else ''File too large (50MB max)''),
                        ed_result := Null\<rparr>
       \<and> va_file (va_step v (VaFileChange (g # gs))) = Some g
       \<and> va_preview (va_step v (VaFileChange (g # gs))) = Some (va_next_url v)
       \<and> va_error (va_step v (VaFileChange (g # gs))) = []
       \<and> va_sent (va_step v (VaFileChange (g # gs))) = va_sent v"
proof -
  have "ed_commit ((ed_run es)\<lparr>ed_error := (if \<not> prefix ''video/'' (ftype f)
                                     then ''Please upload a valid video file''
                                     else ''File too large (50MB max)''),
                        ed_result := Null\<rparr>) =
        (ed_run es)\<lparr>ed_error := (if \<not> prefix ''video/'' (ftype f)
                                     then ''Please upload a valid video file''
                                     else ''File too large (50MB max)''),
                        ed_result := Null\<rparr>"
    using ed_run_dep [OF assms(1)] by (intro ed_commit_idle) simp
  then have "ed_step (ed_run es) (EdFiles (f # fs)) =
           (ed_run es)\<lparr>ed_error := (if \<not> prefix ''video/'' (ftype f)
                                     then ''Please upload a valid video file''
                                     else ''File too large (50MB max)''),
                        ed_result := Null\<rparr>"
    using assms(1) by (simp add: onFileSelected_rejected [OF assms(2)])
  moreover have "va_file (va_step v (VaFileChange (g # gs))) = Some g
       \<and> va_preview (va_step v (VaFileChange (g # gs))) = Some (va_next_url v)
       \<and> va_error (va_step v (VaFileChange (g # gs))) = []
       \<and> va_sent (va_step v (VaFileChange (g # gs))) = va_sent v"
    using assms(3,4) by (simp add: handleFileChange_def va_commit_def)
  ultimately show ?thesis by (simp only: simp_thms)
qed

theorem emotion_detector_gates_selection_witness:
  "ed_step (ed_run ed_showing) (EdFiles [large_clip]) =
     (ed_run ed_showing)\<lparr>ed_error := ''File too large (50MB max)'', ed_result := Null\<rparr>
   \<and> ed_file (ed_run ed_showing) = Some sample_clip
   \<and> va_file (va_step va_init (VaFileChange [large_clip])) = Some large_clip"
  using emotion_detector_gates_selection [of ed_showing large_clip va_init "[]" large_clip "[]"]
    ed_showing_eval
  by (simp add: large_clip_def va_init_def)

text \<open>
  The claim as it was written fails in VideoAnalyzer: a clip of 50 MiB and one byte, and
  a PDF, each become the selection, with no error.
\<close>

theorem video_analyzer_takes_any_file_counterexample:
  "50 * 1024 * 1024 < fsize large_clip
   \<and> va_file (va_step va_init (VaFileChange [large_clip])) = Some large_clip
   \<and> va_error (va_step va_init (VaFileChange [large_clip])) = []
   \<and> \<not> prefix ''video/'' (ftype sample_pdf)
   \<and> va_file (va_step va_init (VaFileChange [sample_pdf])) = Some sample_pdf
   \<and> va_error (va_step va_init (VaFileChange [sample_pdf])) = []"
  by (simp add: large_clip_def sample_pdf_def va_init_def handleFileChange_def va_commit_def)

lemma va_selected_eval:
  "va_mounted (va_run va_selected)" "va_preview (va_run va_selected) = Some 0"
  "\<not> va_loading (va_run va_selected)" "va_file (va_run va_selected) = Some sample_clip"
  "va_intendedEmotion (va_run va_selected) = []" "va_sent (va_run va_selected) = []"
  by (simp_all add: va_selected_def va_run_def va_init_def handleFileChange_def va_commit_def)

text \<open>
  C4, amended. In EmotionDetector a submit with no file selected, or with an intended
  emotion that is empty or all white space, only sets the validation message: no request
  is sent. In VideoAnalyzer \<open>handleAnalyze\<close> does the same when no file is selected, but
  it does not look at the intended emotion: with a file selected it sends the request
  with whatever the field holds.
\<close>

theorem submit_without_input_fails_fast:
  assumes "ed_mounted s" and "\<not> ed_loading s"
    and "ed_file s = None \<or> trim (ed_emotion s) = []"
    and "va_file v = None"
    and "va_mounted w" and "va_preview w = Some p" and "\<not> va_loading w" and "va_file w = Some f"
  shows "ed_step s EdClickAnalyze = s\<lparr>ed_error := ''Upload video and enter intended emotion''\<rparr>
       \<and> handleAnalyze v = v\<lparr>va_error := ''Please select a file first.''\<rparr>
       \<and> va_sent (va_step w VaClickAnalyze) = va_sent w @
           [\<lparr>req_url = VIDEO_API_URL, req_method = ''POST'', req_headers = [],
             req_body = FormData [(''video'', FilePart f),
                                  (''user_emotion'', TextPart (va_intendedEmotion w))]\<rparr>]"
  using assms by (auto simp: analyze_def handleAnalyze_def split: option.splits)

theorem submit_without_input_fails_fast_witness:
  "ed_step (ed_run [EdFiles [sample_clip]]) EdClickAnalyze =
     (ed_run [EdFiles [sample_clip]])\<lparr>ed_error := ''Upload video and enter intended emotion''\<rparr>
   \<and> handleAnalyze va_init = va_init\<lparr>va_error := ''Please select a file first.''\<rparr>
   \<and> va_sent (va_step (va_run va_selected) VaClickAnalyze) =
       [\<lparr>req_url = VIDEO_API_URL, req_method = ''POST'', req_headers = [],
         req_body = FormData [(''video'', FilePart sample_clip), (''user_emotion'', TextPart [])]\<rparr>]"
  using submit_without_input_fails_fast
    [of "ed_run [EdFiles [sample_clip]]" va_init "va_run va_selected" 0 sample_clip]
    va_selected_eval
  by (simp add: ed_run_def ed_init_def ed_commit_def onFileSelected_def sample_clip_def va_init_def
        Let_def)

text \<open>
  The claim as it was written fails in VideoAnalyzer: with a clip selected and the
  intended emotion empty, the submit sets no error and sends the request, with an empty
  \<open>user_emotion\<close>.
\<close>

theorem video_analyzer_sends_empty_emotion_counterexample:
  "va_file (va_run va_selected) = Some sample_clip
   \<and> va_intendedEmotion (va_run va_selected) = []
   \<and> va_error (va_step (va_run va_selected) VaClickAnalyze) = []
   \<and> va_sent (va_step (va_run va_selected) VaClickAnalyze) =
       [\<lparr>req_url = VIDEO_API_URL, req_method = ''POST'', req_headers = [],
         req_body = FormData [(''video'', FilePart sample_clip), (''user_emotion'', TextPart [])]\<rparr>]"
  by (simp add: va_selected_eval handleAnalyze_def)

section \<open>Failed submissions\<close>

lemma st_pending_eval:
  "st_run st_pending =
     \<lparr>st_loading = True, st_result = Null, st_genre = ''Noir'', st_text = ''John sits at the cafe.'',
      st_error = [],
      st_sent = [\<lparr>req_url = SCRIPT_API_URL_TEXT, req_method = ''POST'',
                  req_headers = [(''Content-Type'', ''application/json'')],
                  req_body = JsonBody (Obj [(''original_script'', Str ''John sits at the cafe.''),
                                            (''genre'', Str ''Noir'')])\<rparr>],
      st_inflight = 1\<rparr>"
  by (simp add: st_pending_def st_run_def st_init_def handleGenerate_def trim_def
        is_white_space_def Let_def)

lemma sw_pending_eval:
  "sw_run sw_pending =
     \<lparr>sw_genre = ''Drama'', sw_text = ''John sits at the cafe.'', sw_pdf = None, sw_loading = True,
      sw_out = Null, sw_err = [],
      sw_sent = [\<lparr>req_url = SCRIPT_API @ ''/generate-script/'', req_method = ''POST'',
                  req_headers = [(''Content-Type'', ''application/json'')],
                  req_body = JsonBody (Obj [(''original_script'', Str ''John sits at the cafe.''),
                                            (''genre'', Str ''Drama'')])\<rparr>],
      sw_inflight = 1\<rparr>"
  by (simp add: sw_pending_def sw_run_def sw_init_def submit_def trim_def
        is_white_space_def Let_def)

lemma va_pending_eval:
  "va_mounted (va_run va_pending)" "va_inflight (va_run va_pending) = 1"
  "va_error (va_run va_pending) = []" "va_result (va_run va_pending) = Null"
  by (simp_all add: va_pending_def va_run_def va_init_def handleFileChange_def va_commit_def
        handleAnalyze_def)

lemma ed_pending_eval:
  "ed_mounted (ed_run ed_pending)" "ed_inflight (ed_run ed_pending) = 1"
  "ed_error (ed_run ed_pending) = []" "ed_result (ed_run ed_pending) = Null"
  "ed_file (ed_run ed_pending) = Some sample_clip"
  by (simp_all add: ed_pending_def ed_run_def ed_init_def ed_commit_def onFileSelected_def
        analyze_def sample_clip_def trim_def is_white_space_def Let_def)

lemma st_run_snoc: "st_run (evs @ [e]) = st_step (st_run evs) e"
  by (simp add: st_run_def)

lemma sw_run_snoc: "sw_run (evs @ [e]) = sw_step (sw_run evs) e"
  by (simp add: sw_run_def)

lemma va_run_snoc: "va_run (evs @ [e]) = va_step (va_run evs) e"
  by (simp add: va_run_def)

lemma ed_run_snoc: "ed_run (evs @ [e]) = ed_step (ed_run evs) e"
  by (simp add: ed_run_def)

text \<open>
  C5, amended. When the request of a pending submit settles with a status that is not
  ok, the component leaves the pending phase with an error message and without touching
  the result. ScriptWriter and EmotionDetector parse the body as JSON: the message is
  the \<open>detail\<close> of the body when that is truthy (the text \<open>Error\<close> should its string
  form be empty), \<open>Server error\<close> when the body parses and \<open>detail\<close> is missing or falsy,
  and the message of the parser's exception when the body does not parse.
  ScriptTransformer does not read the body, and VideoAnalyzer reads it only into the
  exception it logs: both always show their own fixed message.
\<close>

theorem failed_status_message:
  assumes "\<not> resp_ok resp"
    and "0 < st_inflight s" and "va_mounted v" and "0 < va_inflight v"
    and "0 < sw_inflight w" and "ed_mounted d" and "0 < ed_inflight d"
  shows "st_step s (StSettled (Resolved resp)) =
           s\<lparr>st_inflight := st_inflight s - 1,
             st_error := ''Failed to connect to the backend. Please check if the API is active.'',
             st_loading := False\<rparr>
       \<and> va_step v (VaSettled (Resolved resp)) =
           v\<lparr>va_inflight := va_inflight v - 1,
             va_error := ''Failed to analyze video. Ensure the file isn'' @ [CHR 0x27] @
                         ''t too large and the backend is active.'',
             va_loading := False\<rparr>
       \<and> sw_step w (SwSettled (Resolved resp)) =
           w\<lparr>sw_inflight := sw_inflight w - 1,
             sw_err :=
               (case resp_json resp of
                  Inl e \<Rightarrow> if emessage e \<noteq> [] then emessage e else exn_to_string e
                | Inr data \<Rightarrow>
                    if truthy (opt_chain data ''detail'')
                    then (if to_string (opt_chain data ''detail'') \<noteq> []
                          then to_string (opt_chain data ''detail'') else ''Error'')
                    else ''Server error''),
             sw_loading := False\<rparr>
       \<and> ed_step d (EdSettled (Resolved resp)) =
           d\<lparr>ed_inflight := ed_inflight d - 1,
             ed_error :=
               (case resp_json resp of
                  Inl e \<Rightarrow> if emessage e \<noteq> [] then emessage e else exn_to_string e
                | Inr data \<Rightarrow>
                    if truthy (opt_chain data ''detail'')
                    then (if to_string (opt_chain data ''detail'') \<noteq> []
                          then to_string (opt_chain data ''detail'') else ''Error'')
                    else ''Server error''),
             ed_loading := False\<rparr>"
proof -
  have st: "st_step s (StSettled (Resolved resp)) =
           s\<lparr>st_inflight := st_inflight s - 1,
             st_error := ''Failed to connect to the backend. Please check if the API is active.'',
             st_loading := False\<rparr>"
    using assms(1,2) by (simp add: handleGenerate_resume_def handleGenerate_catch_def)
  have va: "va_step v (VaSettled (Resolved resp)) =
           v\<lparr>va_inflight := va_inflight v - 1,
             va_error := ''Failed to analyze video. Ensure the file isn'' @ [CHR 0x27] @
                         ''t too large and the backend is active.'',
             va_loading := False\<rparr>"
    using assms(1,3,4) by (simp add: handleAnalyze_resume_def handleAnalyze_catch_def)
  have sw: "sw_step w (SwSettled (Resolved resp)) =
           w\<lparr>sw_inflight := sw_inflight w - 1,
             sw_err :=
               (case resp_json resp of
                  Inl e \<Rightarrow> if emessage e \<noteq> [] then emessage e else exn_to_string e
                | Inr data \<Rightarrow>
                    if truthy (opt_chain data ''detail'')
                    then (if to_string (opt_chain data ''detail'') \<noteq> []
                          then to_string (opt_chain data ''detail'') else ''Error'')
                    else ''Server error''),
             sw_loading := False\<rparr>"
    using assms(1,5)
    by (simp add: submit_resume_def submit_catch_def new_Error_def js_or_def exn_to_string_def
          split: sum.splits)
  have ed: "ed_step d (EdSettled (Resolved resp)) =
           d\<lparr>ed_inflight := ed_inflight d - 1,
             ed_error :=
               (case resp_json resp of
                  Inl e \<Rightarrow> if emessage e \<noteq> [] then emessage e else exn_to_string e
                | Inr data \<Rightarrow>
                    if truthy (opt_chain data ''detail'')
                    then (if to_string (opt_chain data ''detail'') \<noteq> []
                          then to_string (opt_chain data ''detail'') else ''Error'')
                    else ''Server error''),
             ed_loading := False\<rparr>"
    using assms(1,6,7)
    by (simp add: analyze_resume_def analyze_catch_def new_Error_def js_or_def exn_to_string_def
          split: sum.splits)
  from st va sw ed show ?thesis by (simp only: simp_thms)
qed

theorem failed_status_message_witness:
  "st_error (st_step (st_run st_pending) (StSettled (Resolved detail_response))) =
     ''Failed to connect to the backend. Please check if the API is active.''
   \<and> va_error (va_step (va_run va_pending) (VaSettled (Resolved detail_response))) =
     ''Failed to analyze video. Ensure the file isn'' @ [CHR 0x27] @
     ''t too large and the backend is active.''
   \<and> sw_err (sw_step (sw_run sw_pending) (SwSettled (Resolved detail_response))) = ''Model is loading''
   \<and> ed_error (ed_step (ed_run ed_pending) (EdSettled (Resolved detail_response))) = ''Model is loading''"
  using failed_status_message
    [of detail_response "st_run st_pending" "va_run va_pending" "sw_run sw_pending" "ed_run ed_pending"]
    st_pending_eval sw_pending_eval va_pending_eval ed_pending_eval
  by (simp add: detail_response_def opt_chain_def)

text \<open>
  The claim as it was written fails: on a response that is not ok and carries the detail
  \<open>Model is loading\<close>, VideoAnalyzer and ScriptTransformer show their fixed messages;
  and on an error page that is not JSON, ScriptWriter shows the parser's message, not a
  generic one.
\<close>

theorem fixed_message_counterexample:
  "\<not> resp_ok detail_response
   \<and> resp_json detail_response = Inr (Obj [(''detail'', Str ''Model is loading'')])
   \<and> va_error (va_run (va_pending @ [VaSettled (Resolved detail_response)])) =
       ''Failed to analyze video. Ensure the file isn'' @ [CHR 0x27] @
       ''t too large and the backend is active.''
   \<and> st_error (st_run (st_pending @ [StSettled (Resolved detail_response)])) =
       ''Failed to connect to the backend. Please check if the API is active.''
   \<and> resp_json html_response =
       Inl \<lparr>ename = ''SyntaxError'', emessage = ''Unexpected token < in JSON at position 0''\<rparr>
   \<and> sw_err (sw_run (sw_pending @ [SwSettled (Resolved html_response)])) =
       ''Unexpected token < in JSON at position 0''"
  by (simp add: st_run_snoc sw_run_snoc va_run_snoc st_pending_eval sw_pending_eval va_pending_eval
        detail_response_def html_response_def handleGenerate_resume_def handleGenerate_catch_def
        handleAnalyze_resume_def handleAnalyze_catch_def submit_resume_def submit_catch_def)

lemma ed_run_append: "ed_run (evs @ evs2) = foldl ed_step (ed_run evs) evs2"
  by (simp add: ed_run_def)

lemma ed_stale_eval:
  "ed_result (ed_run ed_stale) = joy_payload"
  "ed_error (ed_run ed_stale) = ''Upload video and enter intended emotion''"
  by (simp_all add: ed_stale_def ed_run_append ed_pending_eval joy_response_def
        analyze_resume_def analyze_def)

lemma failed_eval:
  "st_error (st_run st_failed) = ''Failed to connect to the backend. Please check if the API is active.''"
  "sw_err (sw_run sw_failed) = ''Failed to fetch''"
  "va_error (va_run va_failed) = ''Failed to analyze video. Ensure the file isn'' @ [CHR 0x27] @
     ''t too large and the backend is active.''"
  by (simp_all add: st_failed_def sw_failed_def va_failed_def st_run_snoc sw_run_snoc va_run_snoc
        st_pending_eval sw_pending_eval va_pending_eval net_error_def
        handleGenerate_resume_def handleGenerate_catch_def
        handleAnalyze_resume_def handleAnalyze_catch_def submit_resume_def submit_catch_def)

text \<open>
  C6, amended. In no reachable state of ScriptTransformer, ScriptWriter and
  VideoAnalyzer is an error message held together with a result. In EmotionDetector a
  result is held together only with an empty error or with one of the three local
  validation messages, and a pending request that settles in a failure leaves no
  result: so the message of a failed submission is never shown beside a result, but a
  validation message can be.
\<close>

theorem no_failure_message_beside_result:
  "(st_error (st_run e1) \<noteq> [] \<longrightarrow> st_result (st_run e1) = Null)
   \<and> (sw_err (sw_run e2) \<noteq> [] \<longrightarrow> sw_out (sw_run e2) = Null)
   \<and> (va_error (va_run e3) \<noteq> [] \<longrightarrow> va_result (va_run e3) = Null)
   \<and> (ed_result (ed_run e4) \<noteq> Null \<longrightarrow> ed_error (ed_run e4) \<in> set ([] # validation_messages))
   \<and> (ed_mounted (ed_run e5) \<and> 0 < ed_inflight (ed_run e5) \<longrightarrow>
        ed_result (ed_step (ed_run e5) (EdSettled r)) =
          (case r of
             Rejected e \<Rightarrow> Null
           | Resolved resp \<Rightarrow>
               (case resp_json resp of
                  Inl e \<Rightarrow> Null
                | Inr data \<Rightarrow> if resp_ok resp then data else Null)))"
proof -
  have st: "st_error (st_run e1) \<noteq> [] \<longrightarrow> st_result (st_run e1) = Null"
    using st_inv_run [of e1] by (simp add: st_inv_def)
  have sw: "sw_err (sw_run e2) \<noteq> [] \<longrightarrow> sw_out (sw_run e2) = Null"
    using sw_inv_run [of e2] by (simp add: sw_inv_def)
  have va: "va_error (va_run e3) \<noteq> [] \<longrightarrow> va_result (va_run e3) = Null"
    using va_inv_run [of e3] by (simp add: va_inv_def)
  have ed: "ed_result (ed_run e4) \<noteq> Null \<longrightarrow> ed_error (ed_run e4) \<in> set ([] # validation_messages)"
    using ed_inv_run [of e4] by (simp add: ed_inv_def ed_result_inv_def local_or_empty_def)
  have settled: "ed_mounted (ed_run e5) \<and> 0 < ed_inflight (ed_run e5) \<longrightarrow>
        ed_result (ed_step (ed_run e5) (EdSettled r)) =
          (case r of
             Rejected e \<Rightarrow> Null
           | Resolved resp \<Rightarrow>
               (case resp_json resp of
                  Inl e \<Rightarrow> Null
                | Inr data \<Rightarrow> if resp_ok resp then data else Null))"
  proof (intro impI, elim conjE)
    assume pending: "ed_mounted (ed_run e5)" "0 < ed_inflight (ed_run e5)"
    with ed_inv_run [of e5] have "ed_result (ed_run e5) = Null"
      by (auto simp: ed_inv_def ed_net_inv_def ed_result_inv_def split: if_splits)
    with pending show "ed_result (ed_step (ed_run e5) (EdSettled r)) =
          (case r of
             Rejected e \<Rightarrow> Null
           | Resolved resp \<Rightarrow>
               (case resp_json resp of
                  Inl e \<Rightarrow> Null
                | Inr data \<Rightarrow> if resp_ok resp then data else Null))"
      by (simp add: analyze_resume_def analyze_catch_def split: fetch_result.splits sum.splits)
  qed
  from st sw va ed settled show ?thesis by (simp only: simp_thms)
qed

theorem no_failure_message_beside_result_witness:
  "st_error (st_run st_failed) \<noteq> [] \<and> st_result (st_run st_failed) = Null
   \<and> sw_err (sw_run sw_failed) \<noteq> [] \<and> sw_out (sw_run sw_failed) = Null
   \<and> va_error (va_run va_failed) \<noteq> [] \<and> va_result (va_run va_failed) = Null
   \<and> ed_result (ed_run ed_stale) \<noteq> Null
   \<and> ed_error (ed_run ed_stale) \<in> set ([] # validation_messages)
   \<and> ed_mounted (ed_run ed_pending) \<and> 0 < ed_inflight (ed_run ed_pending)
   \<and> ed_result (ed_step (ed_run ed_pending) (EdSettled (Resolved detail_response))) = Null"
  using no_failure_message_beside_result
    [of st_failed sw_failed va_failed ed_stale ed_pending "Resolved detail_response"]
    failed_eval ed_stale_eval ed_pending_eval
  by (simp add: joy_payload_def detail_response_def)

text \<open>
  The claim as it was written fails in EmotionDetector: after a successful analysis,
  emptying the emotion field and pressing Analyze sets the validation message while the
  result of the analysis stays.
\<close>

theorem validation_message_beside_result_counterexample:
  "ed_result (ed_run ed_stale) = joy_payload \<and> truthy joy_payload
   \<and> ed_error (ed_run ed_stale) = ''Upload video and enter intended emotion''
   \<and> ''Upload video and enter intended emotion'' \<noteq> []"
  by (simp add: ed_stale_eval joy_payload_def)

section \<open>Rendering the script\<close>

lemma st_run_pending_result:
  "0 < st_inflight (st_run e1) \<Longrightarrow> st_loading (st_run e1) \<and> st_result (st_run e1) = Null"
  using st_inv_run [of e1] by (auto simp: st_inv_def split: if_splits)

text \<open>
  C9, amended. After a successful response with payload \<open>data\<close>, ScriptWriter renders
  \<open>structured_script\<close> when it is truthy (present and not empty), otherwise
  \<open>final_script\<close> when it is truthy, otherwise the raw dump of the payload (and its
  placeholder when the payload itself is falsy); ScriptTransformer renders
  \<open>structured_script\<close> when truthy, otherwise \<open>final_script\<close> when truthy, and
  otherwise its placeholder: it has no raw dump.
\<close>

theorem rendered_script_fallbacks:
  assumes "resp_ok resp" and "resp_json resp = Inr data"
    and "0 < st_inflight (st_run e1)" and "0 < sw_inflight w"
  shows "st_render (st_step (st_run e1) (StSettled (Resolved resp))) =
           (if truthy (get_prop data ''structured_script'')
            then StScript (get_prop data ''structured_script'')
            else if truthy (get_prop data ''final_script'')
            then StScript (get_prop data ''final_script'')
            else StPlaceholder)
       \<and> sw_render (sw_step w (SwSettled (Resolved resp))) =
           (if \<not> truthy data then SwPlaceholder
            else if truthy (get_prop data ''structured_script'')
            then SwScript (get_prop data ''structured_script'')
            else if truthy (get_prop data ''final_script'')
            then SwScript (get_prop data ''final_script'')
            else SwRawDump data)"
proof -
  have "st_render (st_step (st_run e1) (StSettled (Resolved resp))) =
           (if truthy (get_prop data ''structured_script'')
            then StScript (get_prop data ''structured_script'')
            else if truthy (get_prop data ''final_script'')
            then StScript (get_prop data ''final_script'')
            else StPlaceholder)"
  proof (cases "nullish data")
    case True
    then have "get_prop data ''structured_script'' = Undefined" "get_prop data ''final_script'' = Undefined"
      by (cases data; simp)+
    with True assms(1,2,3) st_run_pending_result [OF assms(3)] show ?thesis
      by (simp add: handleGenerate_resume_def handleGenerate_catch_def st_render_def)
  next
    case False
    with assms(1,2,3) show ?thesis
      by (simp add: handleGenerate_resume_def st_render_def js_or_def)
  qed
  moreover have "sw_render (sw_step w (SwSettled (Resolved resp))) =
           (if \<not> truthy data then SwPlaceholder
            else if truthy (get_prop data ''structured_script'')
            then SwScript (get_prop data ''structured_script'')
            else if truthy (get_prop data ''final_script'')
            then SwScript (get_prop data ''final_script'')
            else SwRawDump data)"
    using assms(1,2,4) by (simp add: submit_resume_def sw_render_def Let_def)
  ultimately show ?thesis by (simp only: simp_thms)
qed

theorem rendered_script_fallbacks_witness:
  "st_render (st_step (st_run st_pending) (StSettled (Resolved other_response))) = StPlaceholder
   \<and> sw_render (sw_step (sw_run sw_pending) (SwSettled (Resolved other_response))) =
       SwRawDump other_payload"
  using rendered_script_fallbacks [of other_response other_payload st_pending "sw_run sw_pending"]
    st_pending_eval sw_pending_eval
  by (simp add: other_response_def other_payload_def)

text \<open>
  The claim as it was written fails in ScriptTransformer: a payload with neither field
  leaves the result undefined and the panel on its placeholder.
\<close>

theorem no_raw_dump_counterexample:
  "resp_ok other_response \<and> resp_json other_response = Inr other_payload
   \<and> get_prop other_payload ''structured_script'' = Undefined
   \<and> get_prop other_payload ''final_script'' = Undefined
   \<and> st_result (st_run (st_pending @ [StSettled (Resolved other_response)])) = Undefined
   \<and> st_render (st_run (st_pending @ [StSettled (Resolved other_response)])) = StPlaceholder"
  by (simp add: st_run_snoc st_pending_eval other_response_def other_payload_def
        handleGenerate_resume_def st_render_def js_or_def)

end
